theory Spec2Isabelle
  imports Main "HOL-Library.AList"
begin

section \<open>JavaScript strings and values\<close>

text \<open>
  A JavaScript string is modelled as a \<^typ>\<open>string\<close> whose characters are the string's
  UTF-16 code units; the model covers the strings all of whose code units are below 256,
  so \<open>length\<close> is the \<open>.length\<close> of the source and the whitespace of \<open>trim()\<close> and of the
  regular expression class \<open>\s\<close> is the set below.
\<close>

definition is_space :: "char \<Rightarrow> bool" where
  "is_space c = (c \<in> {CHR 0x09, CHR 0x0A, CHR 0x0B, CHR 0x0C, CHR 0x0D, CHR 0x20, CHR 0xA0})"

definition trim :: "string \<Rightarrow> string" where
  "trim s = rev (dropWhile is_space (rev (dropWhile is_space s)))"

text \<open>\<open>s.startsWith(p)\<close>, \<open>s.endsWith(p)\<close>, \<open>s.includes(p)\<close>.\<close>

definition startsWith :: "string \<Rightarrow> string \<Rightarrow> bool" where
  "startsWith s p = (take (length p) s = p)"

definition endsWith :: "string \<Rightarrow> string \<Rightarrow> bool" where
  "endsWith s p = (length p \<le> length s \<and> drop (length s - length p) s = p)"

fun str_includes :: "string \<Rightarrow> string \<Rightarrow> bool" where
  "str_includes [] p = (p = [])"
| "str_includes (c # cs) p = (startsWith (c # cs) p \<or> str_includes cs p)"

text \<open>\<open>s.split(c)\<close> for a one-character separator: never the empty list.\<close>

fun str_split :: "char \<Rightarrow> string \<Rightarrow> string list" where
  "str_split c [] = [[]]"
| "str_split c (x # xs) =
     (if x = c then [] # str_split c xs
      else (case str_split c xs of [] \<Rightarrow> [[x]] | p # ps \<Rightarrow> (x # p) # ps))"

text \<open>\<open>s.indexOf("=")\<close>: \<open>None\<close> is the source's \<open>-1\<close>.\<close>

fun indexOf :: "string \<Rightarrow> char \<Rightarrow> nat option" where
  "indexOf [] c = None"
| "indexOf (x # xs) c = (if x = c then Some 0 else map_option Suc (indexOf xs c))"

text \<open>Truthiness of \<open>process.env[key]\<close>: \<open>undefined\<close> and the empty string are falsy.\<close>

fun truthy_str :: "string option \<Rightarrow> bool" where
  "truthy_str None = False"
| "truthy_str (Some s) = (s \<noteq> [])"

datatype error =
    Error string
  | TypeError string
  | ExternalError string

section \<open>env.js: loadEnv\<close>

text \<open>
  The two files \<open>loadEnv\<close> looks at are inputs: a file is missing (\<open>existsSync\<close> is false),
  exists and cannot be read (\<open>readFileSync\<close> throws), or has a content. The process
  environment is a map from names to strings, and \<open>process.env[key] = value\<close> is its
  update, for every key alike.
\<close>

datatype env_file = Missing | Unreadable string | Content string

record env_files =
  env_local :: env_file
  env_plain :: env_file

record process =
  envLoaded :: bool
  env :: "string \<rightharpoonup> string"

text \<open>
  The body of the loop over the lines: \<open>None\<close> is \<open>continue\<close>, \<open>Some (key, value)\<close> the
  key and the value that reach the test \<open>if (!process.env[key])\<close>.
\<close>

definition unquote :: "string \<Rightarrow> string" where
  "unquote v =
     (if (startsWith v [CHR 0x22] \<and> endsWith v [CHR 0x22]) \<or>
         (startsWith v [CHR 0x27] \<and> endsWith v [CHR 0x27])
      then butlast (tl v) else v)"

definition parse_line :: "string \<Rightarrow> (string \<times> string) option" where
  "parse_line line =
     (let trimmed = trim line in
      if trimmed = [] \<or> startsWith trimmed [CHR 0x23] then None
      else (case indexOf trimmed (CHR 0x3D) of
              None \<Rightarrow> None
            | Some idx \<Rightarrow>
                Some (trim (take idx trimmed), unquote (trim (drop (idx + 1) trimmed)))))"

definition set_if_unset :: "string \<times> string \<Rightarrow> (string \<rightharpoonup> string) \<Rightarrow> (string \<rightharpoonup> string)" where
  "set_if_unset kv e = (if \<not> truthy_str (e (fst kv)) then e(fst kv \<mapsto> snd kv) else e)"

fun load_lines :: "string list \<Rightarrow> (string \<rightharpoonup> string) \<Rightarrow> (string \<rightharpoonup> string)" where
  "load_lines [] e = e"
| "load_lines (l # ls) e =
     (case parse_line l of
        None \<Rightarrow> load_lines ls e
      | Some kv \<Rightarrow> load_lines ls (set_if_unset kv e))"

text \<open>One iteration of the loop over \<open>envFiles\<close>.\<close>

fun load_file :: "env_file \<Rightarrow> (string \<rightharpoonup> string) \<Rightarrow> error + (string \<rightharpoonup> string)" where
  "load_file Missing e = Inr e"
| "load_file (Unreadable msg) e = Inl (ExternalError msg)"
| "load_file (Content c) e = Inr (load_lines (str_split (CHR 0x0A) c) e)"

definition loadEnv :: "env_files \<Rightarrow> process \<Rightarrow> (error + unit) \<times> process" where
  "loadEnv fs p =
     (if envLoaded p then (Inr (), p)
      else
        (let p1 = p\<lparr>envLoaded := True\<rparr> in
         case load_file (env_local fs) (env p1) of
           Inl err \<Rightarrow> (Inl err, p1)
         | Inr e1 \<Rightarrow>
             (case load_file (env_plain fs) e1 of
                Inl err \<Rightarrow> (Inl err, p1\<lparr>env := e1\<rparr>)
              | Inr e2 \<Rightarrow> (Inr (), p1\<lparr>env := e2\<rparr>))))"

section \<open>coursera-server.js: getCourseraConfig\<close>

record config =
  cookies :: string
  cauth :: "string option"

text \<open>
  \<open>cookies.match(/CAUTH=([^;]+)/)\<close>: the leftmost \<open>CAUTH=\<close> that is followed by a
  character other than a semicolon, and the longest run of such characters after it.
\<close>

fun regex_cauth :: "string \<Rightarrow> string option" where
  "regex_cauth [] = None"
| "regex_cauth (c # cs) =
     (let s = c # cs; rest = drop 6 s in
      if startsWith s ''CAUTH='' \<and> rest \<noteq> [] \<and> hd rest \<noteq> CHR 0x3B
      then Some (takeWhile (\<lambda>x. x \<noteq> CHR 0x3B) rest)
      else regex_cauth cs)"

definition extractCauth :: "string option \<Rightarrow> string option" where
  "extractCauth ck = (case ck of None \<Rightarrow> None | Some s \<Rightarrow> if s = [] then None else regex_cauth s)"

definition missing_message :: string where
  "missing_message =
     ''Missing COURSERA_COOKIES or COURSERA_CAUTH env var. '' @
     ''You need to extract your session cookies from your browser.''"

definition getCourseraConfig :: "env_files \<Rightarrow> process \<Rightarrow> (error + config) \<times> process" where
  "getCourseraConfig fs p =
     (case loadEnv fs p of
        (Inl err, p1) \<Rightarrow> (Inl err, p1)
      | (Inr u, p1) \<Rightarrow>
          (let ck = env p1 ''COURSERA_COOKIES'';
               ca = env p1 ''COURSERA_CAUTH'' in
           if \<not> truthy_str ck \<and> \<not> truthy_str ca then (Inl (Error missing_message), p1)
           else
             (Inr \<lparr>cookies = (if truthy_str ck then the ck else ''CAUTH='' @ the ca),
                   cauth = (if truthy_str ca then ca else extractCauth ck)\<rparr>, p1)))"

text \<open>
  The start of the two bindings. The HTTP binding calls \<open>getCourseraConfig\<close> in a
  \<open>try\<close> whose \<open>catch\<close> prints the setup instructions and calls \<open>process.exit(1)\<close>, and
  calls \<open>process.exit(1)\<close> again when \<open>listen\<close> reports an error; the standard-input
  binding's \<open>main\<close> rejects when \<open>createCourseraServer\<close> (which starts with
  \<open>getCourseraConfig\<close>) or \<open>server.connect\<close> throws, and its \<open>catch\<close> calls
  \<open>process.exit(1)\<close>. \<open>Serving\<close> is the only state in which a request is read.
\<close>

datatype startup = Exited nat | Serving

definition http_startup :: "env_files \<Rightarrow> bool \<Rightarrow> process \<Rightarrow> startup \<times> process" where
  "http_startup fs listen_error p =
     (case getCourseraConfig fs p of
        (Inl err, p1) \<Rightarrow> (Exited 1, p1)
      | (Inr c, p1) \<Rightarrow> (if listen_error then Exited 1 else Serving, p1))"

definition stdio_main :: "env_files \<Rightarrow> bool \<Rightarrow> process \<Rightarrow> startup \<times> process" where
  "stdio_main fs connect_error p =
     (case getCourseraConfig fs p of
        (Inl err, p1) \<Rightarrow> (Exited 1, p1)
      | (Inr c, p1) \<Rightarrow> (if connect_error then Exited 1 else Serving, p1))"

section \<open>JSON values\<close>

text \<open>
  Tool arguments, upstream replies and tool results are JSON documents. An object is an
  association list read with \<^const>\<open>map_of\<close>; the order of its keys is not modelled.
  Numbers are the integers.
\<close>

datatype jsv =
    JUndefined
  | JNull
  | JBool bool
  | JNum int
  | JStr string
  | JArr "jsv list"
  | JObj "(string \<times> jsv) list"

fun truthy :: "jsv \<Rightarrow> bool" where
  "truthy JUndefined = False"
| "truthy JNull = False"
| "truthy (JBool b) = b"
| "truthy (JNum n) = (n \<noteq> 0)"
| "truthy (JStr s) = (s \<noteq> [])"
| "truthy (JArr xs) = True"
| "truthy (JObj kvs) = True"

text \<open>\<open>a || b\<close>.\<close>

definition or_else :: "jsv \<Rightarrow> jsv \<Rightarrow> jsv" where
  "or_else a b = (if truthy a then a else b)"

fun show_nat :: "nat \<Rightarrow> string" where
  "show_nat n =
     (if n < 10 then [''0123456789'' ! n]
      else show_nat (n div 10) @ [''0123456789'' ! (n mod 10)])"

declare show_nat.simps [simp del]

definition show_int :: "int \<Rightarrow> string" where
  "show_int i = (if i < 0 then CHR ''-'' # show_nat (nat (- i)) else show_nat (nat i))"

text \<open>\<open>xs.join(sep)\<close> on strings.\<close>

fun join :: "string \<Rightarrow> string list \<Rightarrow> string" where
  "join sep [] = []"
| "join sep [x] = x"
| "join sep (x # y # ys) = x @ sep @ join sep (y # ys)"

text \<open>\<open>String(v)\<close>, the conversion of a template literal.\<close>

fun toStr :: "jsv \<Rightarrow> string" where
  "toStr JUndefined = ''undefined''"
| "toStr JNull = ''null''"
| "toStr (JBool b) = (if b then ''true'' else ''false'')"
| "toStr (JNum n) = show_int n"
| "toStr (JStr s) = s"
| "toStr (JArr xs) =
     join '','' (map (\<lambda>x. if x = JUndefined \<or> x = JNull then [] else toStr x) xs)"
| "toStr (JObj kvs) = ''[object Object]''"

text \<open>
  Property reads, for the property names the handlers use (\<open>elements\<close>, \<open>userId\<close>,
  \<open>id\<close>, \<open>courseId\<close>, \<open>url\<close>), none of which a string, a number or an array has of its
  own: \<open>v.p\<close> throws on \<open>undefined\<close> and \<open>null\<close>, \<open>v?.p\<close> gives \<open>undefined\<close> there.
\<close>

fun own_prop :: "string \<Rightarrow> jsv \<Rightarrow> jsv" where
  "own_prop p (JObj kvs) = (case map_of kvs p of None \<Rightarrow> JUndefined | Some v \<Rightarrow> v)"
| "own_prop p v = JUndefined"

definition get_prop :: "string \<Rightarrow> jsv \<Rightarrow> error + jsv" where
  "get_prop p v =
     (if v = JUndefined \<or> v = JNull
      then Inl (TypeError (''Cannot read properties of '' @ toStr v @ '' (reading '' @ p @ '')''))
      else Inr (own_prop p v))"

definition opt_prop :: "string \<Rightarrow> jsv \<Rightarrow> jsv" where
  "opt_prop p v = (if v = JUndefined \<or> v = JNull then JUndefined else own_prop p v)"

text \<open>\<open>v?.[0]\<close>.\<close>

fun opt_first :: "jsv \<Rightarrow> jsv" where
  "opt_first (JArr xs) = (case xs of [] \<Rightarrow> JUndefined | x # _ \<Rightarrow> x)"
| "opt_first (JStr s) = (case s of [] \<Rightarrow> JUndefined | c # _ \<Rightarrow> JStr [c])"
| "opt_first (JObj kvs) = (case map_of kvs ''0'' of None \<Rightarrow> JUndefined | Some v \<Rightarrow> v)"
| "opt_first v = JUndefined"

text \<open>
  An object literal \<open>{k1: v1, ..., ...spread}\<close>: a later entry of a key replaces the
  earlier one.
\<close>

definition obj :: "(string \<times> jsv) list \<Rightarrow> jsv" where
  "obj entries = JObj (foldl (\<lambda>acc kv. AList.update (fst kv) (snd kv) acc) [] entries)"

text \<open>The own enumerable properties that \<open>...v\<close> copies into an object literal.\<close>

fun spread :: "jsv \<Rightarrow> (string \<times> jsv) list" where
  "spread (JObj kvs) = kvs"
| "spread (JArr xs) = zip (map show_nat [0..<length xs]) xs"
| "spread (JStr s) = zip (map show_nat [0..<length s]) (map (\<lambda>c. JStr [c]) s)"
| "spread v = []"

text \<open>
  \<open>encodeURIComponent\<close> on code units below 256: the unreserved characters stay, a
  code unit below 128 is one escaped byte, the others are the two bytes of their UTF-8
  encoding.
\<close>

definition hex2 :: "nat \<Rightarrow> string" where
  "hex2 n = [CHR ''%'', ''0123456789ABCDEF'' ! (n div 16 mod 16), ''0123456789ABCDEF'' ! (n mod 16)]"

definition unreserved :: "char \<Rightarrow> bool" where
  "unreserved c =
     (c \<in> set ''ABCDEFGHIJKLMNOPQRSTUVWXYZabcdefghijklmnopqrstuvwxyz0123456789-_.!~*()'' \<or>
      c = CHR 0x27)"

definition encode_unit :: "char \<Rightarrow> string" where
  "encode_unit c =
     (let n = (of_char c :: nat) in
      if unreserved c then [c]
      else if n < 128 then hex2 n
      else hex2 (192 + n div 64) @ hex2 (128 + n mod 64))"

definition encodeURIComponent :: "string \<Rightarrow> string" where
  "encodeURIComponent s = concat (map encode_unit s)"

section \<open>coursera-server.js: one server instance and the world around it\<close>

text \<open>
  Every awaited call into the browser library or the network is an external call: it is
  logged with its outcome, and the world decides whether it rejects and what it
  resolves to. The calls of an instance are numbered by \<open>tick\<close>; a page is named by the
  number of the \<open>newPage\<close> call that opened it. Waiting on a timer has no outcome and is
  left out, and so is the synchronous \<open>page.url()\<close>, whose value is read from the world.
\<close>

datatype call =
    Launch
  | NewPage
  | SetCookie nat "(string \<times> string) list"
  | SetUserAgent nat
  | SetViewport nat
  | Goto nat jsv
  | WaitForSelector nat
  | Evaluate nat
  | Title nat
  | PageClose nat
  | BrowserClose
  | Fetch string
  | ReadText
  | ReadJson

record response_head =
  ok :: bool
  status :: nat
  content_type :: "string option"

text \<open>
  What \<open>page.evaluate\<close> resolves to in \<open>fetchPageContent\<close>: its callback always
  returns an object of three strings.
\<close>

record extracted =
  ex_html :: string
  ex_text :: string
  ex_selector :: string

record world =
  rejects :: "nat \<Rightarrow> string option"
  response_of :: "nat \<Rightarrow> response_head"
  text_of :: "nat \<Rightarrow> string"
  value_of :: "nat \<Rightarrow> jsv"
  extracted_of :: "nat \<Rightarrow> extracted"
  url_of :: "nat \<Rightarrow> string"

text \<open>
  The variables \<open>createCourseraServer\<close> closes over. \<open>browserPromise\<close> is \<open>None\<close> for
  \<open>null\<close>, and otherwise the settled outcome of the one \<open>puppeteer.launch\<close>.
\<close>

record inst =
  cfg :: config
  browserPromise :: "(error + unit) option"
  trace :: "(call \<times> bool) list"
  tick :: nat

type_synonym 'a io = "inst \<Rightarrow> (error + 'a) \<times> inst"

definition ret :: "'a \<Rightarrow> 'a io" where
  "ret x s = (Inr x, s)"

definition throw :: "error \<Rightarrow> 'a io" where
  "throw e s = (Inl e, s)"

definition bindE :: "'a io \<Rightarrow> ('a \<Rightarrow> 'b io) \<Rightarrow> 'b io" where
  "bindE m f s = (case m s of (Inl e, s1) \<Rightarrow> (Inl e, s1) | (Inr x, s1) \<Rightarrow> f x s1)"

definition lift :: "error + 'a \<Rightarrow> 'a io" where
  "lift r s = (r, s)"

text \<open>\<open>try { m } catch (e) { h e }\<close> and \<open>try { m } finally { f }\<close>.\<close>

definition try_catch :: "'a io \<Rightarrow> (error \<Rightarrow> 'a io) \<Rightarrow> 'a io" where
  "try_catch m h s = (case m s of (Inl e, s1) \<Rightarrow> h e s1 | (Inr x, s1) \<Rightarrow> (Inr x, s1))"

definition try_finally :: "'a io \<Rightarrow> unit io \<Rightarrow> 'a io" where
  "try_finally m f s =
     (case m s of (r, s1) \<Rightarrow> (case f s1 of (Inl e, s2) \<Rightarrow> (Inl e, s2) | (Inr u, s2) \<Rightarrow> (r, s2)))"

text \<open>An external call: the result is its number, under which the world holds its value.\<close>

definition ext :: "world \<Rightarrow> call \<Rightarrow> nat io" where
  "ext w c s =
     ((case rejects w (tick s) of None \<Rightarrow> Inr (tick s) | Some m \<Rightarrow> Inl (ExternalError m)),
      s\<lparr>trace := trace s @ [(c, rejects w (tick s) = None)], tick := Suc (tick s)\<rparr>)"

definition message :: "error \<Rightarrow> string" where
  "message e = (case e of Error m \<Rightarrow> m | TypeError m \<Rightarrow> m | ExternalError m \<Rightarrow> m)"

subsection \<open>The browser\<close>

definition getBrowser :: "world \<Rightarrow> unit io" where
  "getBrowser w s =
     (case browserPromise s of
        None \<Rightarrow>
          (case ext w Launch s of
             (r, s1) \<Rightarrow> (map_sum id (\<lambda>n. ()) r, s1\<lparr>browserPromise := Some (map_sum id (\<lambda>n. ()) r)\<rparr>))
      | Some r \<Rightarrow> (r, s))"

text \<open>
  The cookies \<open>createAuthenticatedPage\<close> sets, as name and value (the domain, the path
  and the flags are constants).
\<close>

definition cookie_pair :: "string \<Rightarrow> (string \<times> string) list" where
  "cookie_pair pair =
     (case str_split (CHR ''='') (trim pair) of
        [] \<Rightarrow> []
      | name # valueParts \<Rightarrow>
          if name \<noteq> [] \<and> valueParts \<noteq> [] then [(trim name, trim (join ''='' valueParts))] else [])"

definition cookiesToSet :: "config \<Rightarrow> (string \<times> string) list" where
  "cookiesToSet c =
     (if truthy_str (cauth c) then [(''CAUTH'', the (cauth c))] else []) @
     (if cookies c \<noteq> [] \<and>
         cookies c \<noteq> ''CAUTH='' @ (case cauth c of None \<Rightarrow> ''null'' | Some t \<Rightarrow> t)
      then concat (map cookie_pair (str_split (CHR '';'') (cookies c))) else [])"

definition createAuthenticatedPage :: "world \<Rightarrow> nat io" where
  "createAuthenticatedPage w =
     bindE (getBrowser w) (\<lambda>u.
     bindE (ext w NewPage) (\<lambda>page.
     bindE (\<lambda>s. if cookiesToSet (cfg s) \<noteq> [] then ext w (SetCookie page (cookiesToSet (cfg s))) s
                else ret 0 s) (\<lambda>u.
     bindE (ext w (SetUserAgent page)) (\<lambda>u.
     bindE (ext w (SetViewport page)) (\<lambda>u.
     ret page)))))"

record page_content =
  pc_title :: string
  pc_url :: string
  pc_content :: string
  pc_html :: string
  pc_foundSelector :: string

definition page_fields :: "page_content \<Rightarrow> (string \<times> jsv) list" where
  "page_fields r =
     [(''title'', JStr (pc_title r)), (''url'', JStr (pc_url r)), (''content'', JStr (pc_content r)),
      (''html'', JStr (pc_html r)), (''foundSelector'', JStr (pc_foundSelector r))]"

text \<open>
  \<open>fetchPageContent(url)\<close>; every caller leaves the options at their defaults, so
  \<open>extractText\<close> is true and \<open>content\<close> is the extracted text.
\<close>

definition fetch_body :: "world \<Rightarrow> nat \<Rightarrow> jsv \<Rightarrow> page_content io" where
  "fetch_body w page url =
     bindE (ext w (Goto page url)) (\<lambda>u.
     bindE (try_catch (ext w (WaitForSelector page)) (\<lambda>e. ret 0)) (\<lambda>u.
     bindE (ext w (Evaluate page)) (\<lambda>n.
     bindE (ext w (Title page)) (\<lambda>t.
     ret \<lparr>pc_title = text_of w t, pc_url = url_of w t,
          pc_content = ex_text (extracted_of w n), pc_html = ex_html (extracted_of w n),
          pc_foundSelector = ex_selector (extracted_of w n)\<rparr>))))"

definition page_close :: "world \<Rightarrow> nat \<Rightarrow> unit io" where
  "page_close w page = bindE (ext w (PageClose page)) (\<lambda>u. ret ())"

definition fetchPageContent :: "world \<Rightarrow> jsv \<Rightarrow> page_content io" where
  "fetchPageContent w url =
     bindE (createAuthenticatedPage w) (\<lambda>page.
     try_finally (fetch_body w page url) (page_close w page))"

subsection \<open>The API\<close>

definition COURSERA_API_BASE :: string where
  "COURSERA_API_BASE = ''https://www.coursera.org/api''"

definition DEFAULT_PER_PAGE :: int where
  "DEFAULT_PER_PAGE = 50"

definition courseraFetch :: "world \<Rightarrow> string \<Rightarrow> jsv io" where
  "courseraFetch w url =
     bindE (ext w (Fetch url)) (\<lambda>n.
       if \<not> ok (response_of w n) then
         bindE (ext w ReadText) (\<lambda>m.
           throw (Error (''Coursera API error '' @ show_nat (status (response_of w n)) @ '': '' @
                         take 500 (text_of w m))))
       else if (case content_type (response_of w n) of
                  None \<Rightarrow> False
                | Some ct \<Rightarrow> str_includes ct ''application/json'')
       then bindE (ext w ReadJson) (\<lambda>m. ret (value_of w m))
       else bindE (ext w ReadText) (\<lambda>m. ret (JStr (text_of w m))))"

text \<open>\<open>courseraFetch(url).catch(() => null)\<close>.\<close>

definition courseraFetch_or_null :: "world \<Rightarrow> string \<Rightarrow> jsv io" where
  "courseraFetch_or_null w url = try_catch (courseraFetch w url) (\<lambda>e. ret JNull)"

subsection \<open>The tool handlers\<close>

type_synonym args = "(string \<times> jsv) list"

text \<open>\<open>args.k\<close>, as the destructuring \<open>const { k } = args\<close> reads it.\<close>

definition arg :: "string \<Rightarrow> args \<Rightarrow> jsv" where
  "arg k a = (case map_of a k of None \<Rightarrow> JUndefined | Some v \<Rightarrow> v)"

fun collect :: "(error + 'a) list \<Rightarrow> error + 'a list" where
  "collect [] = Inr []"
| "collect (Inl e # rs) = Inl e"
| "collect (Inr x # rs) = (case collect rs of Inl e \<Rightarrow> Inl e | Inr xs \<Rightarrow> Inr (x # xs))"

text \<open>
  \<open>memberships?.elements?.map(m => m.courseId).filter(Boolean) || []\<close>: only an array
  has \<open>map\<close>, and reading \<open>courseId\<close> of a \<open>null\<close> element throws.
\<close>

definition courseIds_of :: "jsv \<Rightarrow> error + jsv list" where
  "courseIds_of memberships =
     (case opt_prop ''elements'' memberships of
        JUndefined \<Rightarrow> Inr []
      | JNull \<Rightarrow> Inr []
      | JArr xs \<Rightarrow>
          (case collect (map (get_prop ''courseId'') xs) of
             Inl e \<Rightarrow> Inl e
           | Inr ids \<Rightarrow> Inr (filter truthy ids))
      | _ \<Rightarrow> Inl (TypeError ''memberships?.elements?.map is not a function''))"

definition first_userId :: "jsv \<Rightarrow> jsv" where
  "first_userId memberships = opt_prop ''userId'' (opt_first (opt_prop ''elements'' memberships))"

definition elements_or_empty :: "jsv \<Rightarrow> jsv" where
  "elements_or_empty v = or_else (opt_prop ''elements'' v) (JArr [])"

definition listEnrollments :: "world \<Rightarrow> args \<Rightarrow> jsv io" where
  "listEnrollments w a =
     (let limit = or_else (arg ''limit'' a) (JNum DEFAULT_PER_PAGE) in
      try_catch
        (bindE (courseraFetch_or_null w
                  (COURSERA_API_BASE @ ''/memberships.v1?q=me&includes=programs,courses&limit='' @
                   toStr limit)) (\<lambda>memberships.
         bindE (if truthy (first_userId memberships)
                then courseraFetch_or_null w
                       (COURSERA_API_BASE @ ''/programMemberships.v2?q=byUser&userId='' @
                        toStr (first_userId memberships))
                else ret JNull) (\<lambda>programs.
         bindE (lift (courseIds_of memberships)) (\<lambda>courseIds.
         bindE (if courseIds \<noteq> []
                then bindE (courseraFetch_or_null w
                              (COURSERA_API_BASE @ ''/onDemandCourses.v1?ids='' @
                               join '','' (map toStr courseIds) @
                               ''&fields=id,name,slug,description''))
                       (\<lambda>coursesResponse. ret (elements_or_empty coursesResponse))
                else ret (JArr [])) (\<lambda>courses.
         ret (obj [(''memberships'', elements_or_empty memberships),
                   (''programs'', elements_or_empty programs),
                   (''courses'', courses),
                   (''user_id'', first_userId memberships)]))))))
        (\<lambda>error.
           ret (obj [(''error'', JStr (message error)),
                     (''hint'', JStr ''Try refreshing your CAUTH cookie from the browser'')])))"

definition course_url :: "jsv \<Rightarrow> string" where
  "course_url course_slug =
     COURSERA_API_BASE @ ''/onDemandCourses.v1?q=slug&slug='' @
     encodeURIComponent (toStr course_slug) @
     ''&fields=id,name,slug,description,primaryLanguages,instructorIds,partnerIds,workload,photoUrl''"

definition getCourse :: "world \<Rightarrow> args \<Rightarrow> jsv io" where
  "getCourse w a =
     (let course_slug = arg ''course_slug'' a;
          url = course_url course_slug
      in bindE (courseraFetch w url) (\<lambda>response.
           let course = opt_first (opt_prop ''elements'' response) in
           if \<not> truthy course then throw (Error (''Course not found: '' @ toStr course_slug))
           else ret course))"

definition listCourseMaterials :: "world \<Rightarrow> args \<Rightarrow> jsv io" where
  "listCourseMaterials w a =
     (let course_slug = arg ''course_slug'' a;
          url = ''https://www.coursera.org/learn/'' @ toStr course_slug @ ''/home/week/1''
      in bindE (createAuthenticatedPage w) (\<lambda>page.
           try_finally
             (bindE (ext w (Goto page (JStr url))) (\<lambda>u.
              bindE (ext w (Evaluate page)) (\<lambda>n.
              ret (obj [(''course_slug'', course_slug), (''url'', JStr url),
                        (''modules'', value_of w n)]))))
             (page_close w page)))"

text \<open>
  \<open>url.includes('coursera.org')\<close>: a string has the substring test, an array the
  membership test, and no other JSON value has a method \<open>includes\<close>.
\<close>

definition url_includes :: "jsv \<Rightarrow> error + bool" where
  "url_includes url =
     (case url of
        JStr u \<Rightarrow> Inr (str_includes u ''coursera.org'')
      | JArr xs \<Rightarrow> Inr (List.member xs (JStr ''coursera.org''))
      | JUndefined \<Rightarrow> Inl (TypeError ''Cannot read properties of undefined (reading includes)'')
      | JNull \<Rightarrow> Inl (TypeError ''Cannot read properties of null (reading includes)'')
      | _ \<Rightarrow> Inl (TypeError ''url.includes is not a function''))"

definition getPageContent :: "world \<Rightarrow> args \<Rightarrow> jsv io" where
  "getPageContent w a =
     (let url = arg ''url'' a in
      bindE (lift (url_includes url)) (\<lambda>found.
        if \<not> found then throw (Error ''URL must be a Coursera URL'')
        else bindE (fetchPageContent w url) (\<lambda>result. ret (obj (page_fields result)))))"

definition getReading :: "world \<Rightarrow> args \<Rightarrow> jsv io" where
  "getReading w a =
     (let course_slug = arg ''course_slug'' a; item_id = arg ''item_id'' a;
          slug = or_else (arg ''item_name'' a) (JStr ''reading'');
          url = ''https://www.coursera.org/learn/'' @ toStr course_slug @ ''/supplement/'' @
                toStr item_id @ ''/'' @ toStr slug
      in bindE (fetchPageContent w (JStr url)) (\<lambda>result.
           ret (obj ([(''course_slug'', course_slug), (''item_id'', item_id)] @ page_fields result))))"

definition getLecture :: "world \<Rightarrow> args \<Rightarrow> jsv io" where
  "getLecture w a =
     (let course_slug = arg ''course_slug'' a; item_id = arg ''item_id'' a;
          slug = or_else (arg ''item_name'' a) (JStr ''lecture'');
          url = ''https://www.coursera.org/learn/'' @ toStr course_slug @ ''/lecture/'' @
                toStr item_id @ ''/'' @ toStr slug
      in bindE (createAuthenticatedPage w) (\<lambda>page.
           try_finally
             (bindE (ext w (Goto page (JStr url))) (\<lambda>u.
              bindE (ext w (Evaluate page)) (\<lambda>n.
              bindE (ext w (Title page)) (\<lambda>t.
              ret (obj ([(''course_slug'', course_slug), (''item_id'', item_id),
                         (''url'', JStr url), (''page_title'', JStr (text_of w t))] @
                        spread (value_of w n)))))))
             (page_close w page)))"

text \<open>
  \<open>[...new Map(assignments.map(a => [a.url, a])).values()]\<close>: one entry for each
  \<open>url\<close>, at the place of its first item and with its last item. The keys are the
  links' \<open>href\<close> strings.
\<close>

definition dedupe :: "jsv \<Rightarrow> error + jsv" where
  "dedupe assignments =
     (case assignments of
        JArr xs \<Rightarrow>
          (case collect (map (\<lambda>x. map_sum id (\<lambda>u. (u, x)) (get_prop ''url'' x)) xs) of
             Inl e \<Rightarrow> Inl e
           | Inr kvs \<Rightarrow>
               Inr (JArr (map snd (foldl (\<lambda>acc kv. AList.update (fst kv) (snd kv) acc) [] kvs))))
      | _ \<Rightarrow> Inl (TypeError ''assignments.map is not a function''))"

definition listAssignments :: "world \<Rightarrow> args \<Rightarrow> jsv io" where
  "listAssignments w a =
     (let course_slug = arg ''course_slug'' a;
          courseUrl = COURSERA_API_BASE @ ''/onDemandCourses.v1?q=slug&slug='' @
                      encodeURIComponent (toStr course_slug) @ ''&fields=id''
      in bindE (courseraFetch w courseUrl) (\<lambda>courseResponse.
           let courseId = opt_prop ''id'' (opt_first (opt_prop ''elements'' courseResponse)) in
           if \<not> truthy courseId then throw (Error (''Course not found: '' @ toStr course_slug))
           else
             bindE (createAuthenticatedPage w) (\<lambda>page.
               try_finally
                 (bindE (ext w (Goto page
                           (JStr (''https://www.coursera.org/learn/'' @ toStr course_slug @
                                  ''/home/week/1'')))) (\<lambda>u.
                  bindE (ext w (Evaluate page)) (\<lambda>n.
                  bindE (lift (dedupe (value_of w n))) (\<lambda>assignments.
                  ret (obj [(''course_id'', courseId), (''course_slug'', course_slug),
                            (''assignments'', assignments)])))))
                 (page_close w page))))"

text \<open>
  \<open>getAssignment\<close>: the candidate URLs, and the loop over them. A candidate whose
  \<open>fetchPageContent\<close> throws is skipped by the \<open>catch\<close>; the \<open>throw\<close> after the loop is
  the empty list's case.
\<close>

definition assignment_urls :: "jsv \<Rightarrow> jsv \<Rightarrow> jsv \<Rightarrow> string list" where
  "assignment_urls course_slug item_id slug =
     [''https://www.coursera.org/learn/'' @ toStr course_slug @ ''/quiz/'' @ toStr item_id @
        ''/'' @ toStr slug,
      ''https://www.coursera.org/learn/'' @ toStr course_slug @ ''/exam/'' @ toStr item_id @
        ''/'' @ toStr slug,
      ''https://www.coursera.org/learn/'' @ toStr course_slug @ ''/assignment/'' @ toStr item_id @
        ''/'' @ toStr slug]"

definition accepted :: "page_content \<Rightarrow> bool" where
  "accepted result = (pc_content result \<noteq> [] \<and> length (pc_content result) > 100)"

definition assignment_result :: "jsv \<Rightarrow> jsv \<Rightarrow> page_content \<Rightarrow> jsv" where
  "assignment_result course_slug item_id result =
     obj ([(''course_slug'', course_slug), (''item_id'', item_id)] @ page_fields result)"

definition could_not_find :: "jsv \<Rightarrow> jsv \<Rightarrow> error" where
  "could_not_find course_slug item_id =
     Error (''Could not find assignment '' @ toStr item_id @ '' in course '' @ toStr course_slug)"

fun getAssignment_loop :: "world \<Rightarrow> jsv \<Rightarrow> jsv \<Rightarrow> string list \<Rightarrow> jsv io" where
  "getAssignment_loop w course_slug item_id [] s = throw (could_not_find course_slug item_id) s"
| "getAssignment_loop w course_slug item_id (url # urls) s =
     (case fetchPageContent w (JStr url) s of
        (Inr result, s1) \<Rightarrow>
          if accepted result then (Inr (assignment_result course_slug item_id result), s1)
          else getAssignment_loop w course_slug item_id urls s1
      | (Inl e, s1) \<Rightarrow> getAssignment_loop w course_slug item_id urls s1)"

definition getAssignment :: "world \<Rightarrow> args \<Rightarrow> jsv io" where
  "getAssignment w a =
     (let course_slug = arg ''course_slug'' a; item_id = arg ''item_id'' a;
          slug = or_else (arg ''item_name'' a) (JStr ''quiz'')
      in getAssignment_loop w course_slug item_id (assignment_urls course_slug item_id slug))"

definition getProgress :: "world \<Rightarrow> args \<Rightarrow> jsv io" where
  "getProgress w a =
     (let course_slug = arg ''course_slug'' a;
          url = ''https://www.coursera.org/learn/'' @ toStr course_slug @ ''/home/welcome''
      in bindE (createAuthenticatedPage w) (\<lambda>page.
           try_finally
             (bindE (ext w (Goto page (JStr url))) (\<lambda>u.
              bindE (ext w (Evaluate page)) (\<lambda>n.
              ret (obj ([(''course_slug'', course_slug), (''url'', JStr url)] @
                        spread (value_of w n))))))
             (page_close w page)))"

definition listDegreePrograms :: "world \<Rightarrow> args \<Rightarrow> jsv io" where
  "listDegreePrograms w a =
     try_catch
       (bindE (courseraFetch w (COURSERA_API_BASE @ ''/memberships.v1?q=me&limit=100''))
          (\<lambda>memberships.
             if \<not> truthy (first_userId memberships) then throw (Error ''Could not get user ID'')
             else
               bindE (courseraFetch w
                        (COURSERA_API_BASE @ ''/programMemberships.v2?q=byUser&userId='' @
                         toStr (first_userId memberships))) (\<lambda>programs.
               ret (obj [(''user_id'', first_userId memberships),
                         (''programs'', elements_or_empty programs)]))))
       (\<lambda>error.
          ret (obj [(''error'', JStr (message error)),
                    (''hint'', JStr ''Degree program access requires valid authentication'')]))"

subsection \<open>The tool registry and the request handlers\<close>

text \<open>
  The \<open>tools\<close> list that \<open>tools/list\<close> returns: for each tool its name and its
  \<open>inputSchema\<close> (the typed properties and the required ones; every schema has
  \<open>additionalProperties: false\<close>). The descriptions are left out.
\<close>

datatype prop_type = TString | TInteger int int

record tool =
  tool_name :: string
  properties :: "(string \<times> prop_type) list"
  required :: "string list"

definition tools :: "tool list" where
  "tools =
     [\<lparr>tool_name = ''list_enrollments'', properties = [(''limit'', TInteger 1 100)], required = []\<rparr>,
      \<lparr>tool_name = ''get_course'', properties = [(''course_slug'', TString)],
       required = [''course_slug'']\<rparr>,
      \<lparr>tool_name = ''list_course_materials'', properties = [(''course_slug'', TString)],
       required = [''course_slug'']\<rparr>,
      \<lparr>tool_name = ''get_page_content'', properties = [(''url'', TString)], required = [''url'']\<rparr>,
      \<lparr>tool_name = ''get_reading'',
       properties = [(''course_slug'', TString), (''item_id'', TString), (''item_name'', TString)],
       required = [''course_slug'', ''item_id'']\<rparr>,
      \<lparr>tool_name = ''get_lecture'',
       properties = [(''course_slug'', TString), (''item_id'', TString), (''item_name'', TString)],
       required = [''course_slug'', ''item_id'']\<rparr>,
      \<lparr>tool_name = ''list_assignments'', properties = [(''course_slug'', TString)],
       required = [''course_slug'']\<rparr>,
      \<lparr>tool_name = ''get_assignment'',
       properties = [(''course_slug'', TString), (''item_id'', TString), (''item_name'', TString)],
       required = [''course_slug'', ''item_id'']\<rparr>,
      \<lparr>tool_name = ''get_progress'', properties = [(''course_slug'', TString)],
       required = [''course_slug'']\<rparr>,
      \<lparr>tool_name = ''list_degree_programs'', properties = [], required = []\<rparr>]"

text \<open>
  What it is for an argument object to satisfy such a schema, in the words of JSON
  Schema: every required property is there, every property is a declared one, and
  every value has the declared type and lies within the declared bounds. No function
  of the source computes this.
\<close>

fun has_type :: "prop_type \<Rightarrow> jsv \<Rightarrow> bool" where
  "has_type TString (JStr s) = True"
| "has_type (TInteger lo hi) (JNum n) = (lo \<le> n \<and> n \<le> hi)"
| "has_type t v = False"

definition schema_valid :: "tool \<Rightarrow> args \<Rightarrow> bool" where
  "schema_valid t a =
     (list_all (\<lambda>k. map_of a k \<noteq> None) (required t) \<and>
      list_all (\<lambda>kv. case map_of (properties t) (fst kv) of
                        None \<Rightarrow> False
                      | Some ty \<Rightarrow> has_type ty (snd kv)) a)"

definition find_tool :: "string \<Rightarrow> tool option" where
  "find_tool name = find (\<lambda>t. tool_name t = name) tools"

text \<open>The object \<open>toolHandlers\<close>, by its own keys.\<close>

definition toolHandlers :: "string \<Rightarrow> (world \<Rightarrow> args \<Rightarrow> jsv io) option" where
  "toolHandlers name =
     (if name = ''list_enrollments'' then Some listEnrollments
      else if name = ''get_course'' then Some getCourse
      else if name = ''list_course_materials'' then Some listCourseMaterials
      else if name = ''get_page_content'' then Some getPageContent
      else if name = ''get_reading'' then Some getReading
      else if name = ''get_lecture'' then Some getLecture
      else if name = ''list_assignments'' then Some listAssignments
      else if name = ''get_assignment'' then Some getAssignment
      else if name = ''get_progress'' then Some getProgress
      else if name = ''list_degree_programs'' then Some listDegreePrograms
      else None)"

text \<open>
  \<open>toolHandlers[name]\<close> also finds what the object inherits from \<open>Object.prototype\<close>,
  and every such value is truthy. Called as \<open>handler(args || {})\<close> in a module (so
  without a \<open>this\<close>), \<open>constructor\<close> returns its argument, \<open>toString\<close> returns a fixed
  string, and the others throw a \<open>TypeError\<close>, as does calling the object that
  \<open>__proto__\<close> gives. None of them calls the world.
\<close>

definition object_prototype :: "string list" where
  "object_prototype =
     [''constructor'', ''__defineGetter__'', ''__defineSetter__'', ''hasOwnProperty'',
      ''__lookupGetter__'', ''__lookupSetter__'', ''isPrototypeOf'', ''propertyIsEnumerable'',
      ''toString'', ''valueOf'', ''__proto__'', ''toLocaleString'']"

definition inherited :: "string \<Rightarrow> args \<Rightarrow> error + jsv" where
  "inherited name a =
     (if name = ''constructor'' then Inr (JObj a)
      else if name = ''toString'' then Inr (JStr ''[object Undefined]'')
      else Inl (TypeError (name @ '' cannot be called this way'')))"

text \<open>
  \<open>formatToolResponse\<close>: the envelope with one text item, whose text is
  \<open>JSON.stringify(result, null, 2)\<close>.
\<close>

datatype tool_response = TextContent jsv

definition formatToolResponse :: "jsv \<Rightarrow> tool_response" where
  "formatToolResponse result = TextContent result"

text \<open>
  The handler of \<open>CallToolRequestSchema\<close>. The protocol library has checked the shape of
  the request before: \<open>name\<close> is a string, and \<open>arguments\<close> is absent or an object.
\<close>

definition callTool :: "world \<Rightarrow> string \<Rightarrow> args option \<Rightarrow> tool_response io" where
  "callTool w name arguments =
     (let a = (case arguments of None \<Rightarrow> [] | Some x \<Rightarrow> x) in
      case toolHandlers name of
        Some handler \<Rightarrow> bindE (handler w a) (\<lambda>result. ret (formatToolResponse result))
      | None \<Rightarrow>
          if List.member object_prototype name
          then bindE (lift (inherited name a)) (\<lambda>result. ret (formatToolResponse result))
          else throw (Error (''Unknown tool: '' @ name)))"

text \<open>\<open>server.onclose\<close>.\<close>

definition onclose :: "world \<Rightarrow> unit io" where
  "onclose w s =
     (case browserPromise s of
        None \<Rightarrow> ret () s
      | Some r \<Rightarrow> bindE (lift r) (\<lambda>browser. bindE (ext w BrowserClose) (\<lambda>u. ret ())) s)"

definition createCourseraServer :: "env_files \<Rightarrow> process \<Rightarrow> (error + inst) \<times> process" where
  "createCourseraServer fs p =
     (case getCourseraConfig fs p of
        (Inl err, p1) \<Rightarrow> (Inl err, p1)
      | (Inr c, p1) \<Rightarrow> (Inr \<lparr>cfg = c, browserPromise = None, trace = [], tick = 0\<rparr>, p1))"

section \<open>The HTTP binding\<close>

subsection \<open>Requests and the API key\<close>

text \<open>
  A header of \<open>req.headers\<close> is absent, a string or an array of strings. Which route of
  the application a request matches is decided by the web framework from its path and
  method, and is part of the request here; so is what the protocol library's
  \<open>isInitializeRequest\<close> says of the body and of each entry of a batch.
\<close>

datatype header = Absent | Single string | Multiple "string list"

datatype route = McpRoute | HealthRoute | NoRoute

datatype body = NoBody | Message bool | Batch "bool list"

record request =
  route :: route
  req_method :: string
  authorization :: header
  x_api_key :: header
  mcp_session_id :: header
  body :: body

fun getFirstHeaderValue :: "header \<Rightarrow> string option" where
  "getFirstHeaderValue Absent = None"
| "getFirstHeaderValue (Single v) = Some v"
| "getFirstHeaderValue (Multiple vs) = (case vs of [] \<Rightarrow> None | v # _ \<Rightarrow> Some v)"

text \<open>
  \<open>authHeader.match(/^Bearer\s+(.+)$/i)\<close>: the word in either case, then a run of
  whitespace as long as possible that still leaves a non-empty rest without a line
  terminator, which is the group.
\<close>

definition is_line_terminator :: "char \<Rightarrow> bool" where
  "is_line_terminator c = (c = CHR 0x0A \<or> c = CHR 0x0D)"

definition ci_bearer :: "string \<Rightarrow> bool" where
  "ci_bearer p =
     list_all2 (\<lambda>c l. c = fst l \<or> c = snd l) p
       [(CHR ''B'', CHR ''b''), (CHR ''E'', CHR ''e''), (CHR ''A'', CHR ''a''),
        (CHR ''R'', CHR ''r''), (CHR ''E'', CHR ''e''), (CHR ''R'', CHR ''r'')]"

definition bearer_match :: "string \<Rightarrow> string option" where
  "bearer_match h =
     (if \<not> ci_bearer (take 6 h) then None
      else
        (let rest = drop 6 h; m = length (takeWhile is_space rest) in
         map_option (\<lambda>k. drop k rest)
           (find (\<lambda>k. drop k rest \<noteq> [] \<and> list_all (\<lambda>c. \<not> is_line_terminator c) (drop k rest))
              (rev [1..<Suc m]))))"

definition extractApiKey :: "request \<Rightarrow> string option" where
  "extractApiKey req =
     (case getFirstHeaderValue (authorization req) of
        Some authHeader \<Rightarrow>
          Some (trim (case bearer_match authHeader of Some g \<Rightarrow> g | None \<Rightarrow> authHeader))
      | None \<Rightarrow>
          (case getFirstHeaderValue (x_api_key req) of
             Some headerKey \<Rightarrow> Some (trim headerKey)
           | None \<Rightarrow> None))"

text \<open>
  A response: the one \<open>respondJsonRpcError(res, status, code, message)\<close> sends, with the
  body \<open>{jsonrpc: "2.0", error: {code, message}, id: null}\<close>; the health document
  \<open>{status: "ok", service: "coursera-mcp"}\<close>; what \<open>transport.handleRequest\<close> wrote; and
  what the framework answers when no route matches.
\<close>

datatype response =
    JsonRpcError nat int string
  | HealthDocument
  | Handled
  | FrameworkDefault

definition respondJsonRpcError :: "nat \<Rightarrow> int \<Rightarrow> string \<Rightarrow> response" where
  "respondJsonRpcError st code msg = JsonRpcError st code msg"

text \<open>
  The middleware \<open>app.use(...)\<close> that is installed when \<open>apiKey\<close> is truthy: \<open>True\<close> is
  \<open>next()\<close>.
\<close>

definition api_key_passes :: "string \<Rightarrow> request \<Rightarrow> bool" where
  "api_key_passes apiKey req =
     (case extractApiKey req of
        None \<Rightarrow> False
      | Some provided \<Rightarrow> provided \<noteq> [] \<and> provided = apiKey)"

definition unauthorized :: response where
  "unauthorized = respondJsonRpcError 401 (- 32000) ''Unauthorized''"

subsection \<open>Sessions\<close>

text \<open>
  The map \<open>sessions\<close>, in insertion order. A transport is an object of the protocol
  library: \<open>kind\<close> is what \<open>instanceof StreamableHTTPServerTransport\<close> tests,
  \<open>sessionId\<close> is its field of that name, and \<open>owner\<close> is the server that the callbacks
  given to its constructor close over. Transports and servers are named by numbers.
\<close>

datatype transport_kind = StreamableHTTP | OtherTransport

record transport =
  tid :: nat
  kind :: transport_kind
  sessionId :: "string option"
  owner :: nat

record session =
  s_transport :: transport
  s_server :: nat

datatype hcall =
    TransportClose nat bool
  | ServerClose nat bool
  | Connect nat nat
  | HandleRequest nat

record http_state =
  sessions :: "(string \<times> session) list"
  hlog :: "hcall list"
  fresh :: nat

text \<open>
  What the world does to the calls on transports and servers: whether a \<open>close()\<close>
  throws, whether \<open>transport.close()\<close> calls the transport's \<open>onclose\<close>, and whether
  the listening server's \<open>close\<close> ever reports that all connections have ended.
\<close>

record http_world =
  transport_close_throws :: "nat \<Rightarrow> bool"
  transport_close_calls_onclose :: "nat \<Rightarrow> bool"
  server_close_throws :: "nat \<Rightarrow> bool"
  httpServer_closes :: bool

definition storeSession :: "string \<Rightarrow> transport \<Rightarrow> nat \<Rightarrow> http_state \<Rightarrow> http_state" where
  "storeSession sid t srv st =
     st\<lparr>sessions := AList.update sid \<lparr>s_transport = t, s_server = srv\<rparr> (sessions st)\<rparr>"

text \<open>\<open>cleanupSession\<close> and \<open>shutdownSession\<close>: both \<open>catch\<close> blocks swallow the error.\<close>

definition cleanupSession :: "http_world \<Rightarrow> string \<Rightarrow> http_state \<Rightarrow> http_state" where
  "cleanupSession hw sid st =
     (case map_of (sessions st) sid of
        None \<Rightarrow> st\<lparr>sessions := AList.delete sid (sessions st)\<rparr>
      | Some session \<Rightarrow>
          st\<lparr>sessions := AList.delete sid (sessions st),
             hlog := hlog st @
               [ServerClose (s_server session) (\<not> server_close_throws hw (s_server session))]\<rparr>)"

text \<open>
  The \<open>transport.onclose\<close> that \<open>getStreamableTransport\<close> installs:
  \<open>cleanupSession(sid).catch(() => {})\<close> when the transport has a session identifier.
\<close>

definition transport_onclose :: "http_world \<Rightarrow> transport \<Rightarrow> http_state \<Rightarrow> http_state" where
  "transport_onclose hw t st =
     (case sessionId t of
        None \<Rightarrow> st
      | Some sid \<Rightarrow> if sid = [] then st else cleanupSession hw sid st)"

definition transport_close :: "http_world \<Rightarrow> transport \<Rightarrow> http_state \<Rightarrow> http_state" where
  "transport_close hw t st =
     (let st1 = st\<lparr>hlog := hlog st @ [TransportClose (tid t) (\<not> transport_close_throws hw (tid t))]\<rparr>
      in if transport_close_calls_onclose hw (tid t) then transport_onclose hw t st1 else st1)"

definition shutdownSession :: "http_world \<Rightarrow> string \<Rightarrow> http_state \<Rightarrow> http_state" where
  "shutdownSession hw sid st =
     cleanupSession hw sid
       (case map_of (sessions st) sid of
          None \<Rightarrow> st
        | Some session \<Rightarrow> transport_close hw (s_transport session) st)"

text \<open>
  The handler of \<open>SIGINT\<close>: the loop over a copy of the keys, then
  \<open>httpServer.close(() => process.exit(0))\<close>. The result is the exit code, if the
  process exits.
\<close>

definition sigint :: "http_world \<Rightarrow> http_state \<Rightarrow> nat option \<times> http_state" where
  "sigint hw st =
     (let sessionIds = map fst (sessions st);
          st1 = foldl (\<lambda>s sessionId. shutdownSession hw sessionId s) st sessionIds
      in (if httpServer_closes hw then Some 0 else None, st1))"

subsection \<open>The protocol endpoint\<close>

definition hasInitializeRequest :: "body \<Rightarrow> bool" where
  "hasInitializeRequest b =
     (case b of NoBody \<Rightarrow> False | Message i \<Rightarrow> i | Batch entries \<Rightarrow> list_ex (\<lambda>i. i) entries)"

text \<open>
  What happens around one request outside this file: whether \<open>createCourseraServer\<close> or
  \<open>server.connect\<close> throws, the identifier the transport generates and hands to
  \<open>onsessioninitialized\<close> while it handles the request (if it does), whether the
  transport closes while it handles the request, and whether \<open>handleRequest\<close> throws,
  before or after the headers were sent.
\<close>

record reaction =
  create_throws :: bool
  connect_throws :: bool
  generated :: "string option"
  closes :: bool
  handle_throws :: bool
  headersSent :: bool

definition no_valid_session :: response where
  "no_valid_session = respondJsonRpcError 400 (- 32000) ''Bad Request: No valid session ID provided''"

definition different_transport :: response where
  "different_transport =
     respondJsonRpcError 400 (- 32000)
       ''Bad Request: Session exists but uses a different transport protocol''"

text \<open>The session identifier of a request: an empty header value is falsy, like none.\<close>

definition session_header :: "request \<Rightarrow> string option" where
  "session_header req =
     (case getFirstHeaderValue (mcp_session_id req) of
        None \<Rightarrow> None
      | Some v \<Rightarrow> if v = [] then None else Some v)"

text \<open>
  \<open>getStreamableTransport\<close>: \<open>Inr (Inl response)\<close> is \<open>return null\<close> after the error
  response was sent, \<open>Inl\<close> a thrown error.
\<close>

definition getStreamableTransport ::
  "reaction \<Rightarrow> request \<Rightarrow> http_state \<Rightarrow> (error + (response + transport)) \<times> http_state" where
  "getStreamableTransport rx req st =
     (case session_header req of
        Some sid \<Rightarrow>
          (case map_of (sessions st) sid of
             None \<Rightarrow> (Inr (Inl no_valid_session), st)
           | Some session \<Rightarrow>
               if kind (s_transport session) \<noteq> StreamableHTTP
               then (Inr (Inl different_transport), st)
               else (Inr (Inr (s_transport session)), st))
      | None \<Rightarrow>
          if req_method req \<noteq> ''POST'' \<or> \<not> hasInitializeRequest (body req)
          then (Inr (Inl no_valid_session), st)
          else if create_throws rx then (Inl (Error missing_message), st)
          else
            (let server = fresh st;
                 t = \<lparr>tid = Suc (fresh st), kind = StreamableHTTP, sessionId = None, owner = server\<rparr>;
                 st1 = st\<lparr>hlog := hlog st @ [Connect server (tid t)], fresh := fresh st + 2\<rparr>
             in if connect_throws rx then (Inl (ExternalError ''connect''), st1)
                else (Inr (Inr t), st1)))"

text \<open>
  \<open>transport.handleRequest\<close>, as far as it calls back into this file: a transport
  without a session identifier may generate one and call \<open>onsessioninitialized\<close>, which
  is \<open>storeSession\<close>; a transport may close, which calls its \<open>onclose\<close>.
\<close>

definition handleRequest ::
  "http_world \<Rightarrow> reaction \<Rightarrow> transport \<Rightarrow> http_state \<Rightarrow> (error + unit) \<times> http_state" where
  "handleRequest hw rx t st =
     (let st0 = st\<lparr>hlog := hlog st @ [HandleRequest (tid t)]\<rparr>;
          t1 = (case generated rx of
                  Some sid \<Rightarrow> if sessionId t = None then t\<lparr>sessionId := Some sid\<rparr> else t
                | None \<Rightarrow> t);
          st1 = (case generated rx of
                   Some sid \<Rightarrow> if sessionId t = None then storeSession sid t1 (owner t) st0 else st0
                 | None \<Rightarrow> st0);
          st2 = (if closes rx then transport_onclose hw t1 st1 else st1)
      in (if handle_throws rx then Inl (ExternalError ''handleRequest'') else Inr (), st2))"

definition internal_error :: response where
  "internal_error = respondJsonRpcError 500 (- 32603) ''Internal server error''"

text \<open>The route \<open>app.all("/mcp", ...)\<close>.\<close>

definition mcp :: "http_world \<Rightarrow> reaction \<Rightarrow> request \<Rightarrow> http_state \<Rightarrow> response \<times> http_state" where
  "mcp hw rx req st =
     (case getStreamableTransport rx req st of
        (Inl e, st1) \<Rightarrow> (internal_error, st1)
      | (Inr (Inl resp), st1) \<Rightarrow> (resp, st1)
      | (Inr (Inr t), st1) \<Rightarrow>
          (case handleRequest hw rx t st1 of
             (Inl e, st2) \<Rightarrow> (if \<not> headersSent rx then internal_error else Handled, st2)
           | (Inr u, st2) \<Rightarrow> (Handled, st2)))"

text \<open>
  The application: the API key middleware, installed before the routes when
  \<open>MCP_API_KEY\<close> is truthy, and then the routes \<open>/mcp\<close> and \<open>/health\<close>. A request is
  one that the middleware of \<open>createMcpExpressApp\<close>, which is the protocol library's, has
  passed on.
\<close>

definition app ::
  "string option \<Rightarrow> http_world \<Rightarrow> reaction \<Rightarrow> request \<Rightarrow> http_state \<Rightarrow> response \<times> http_state" where
  "app apiKey hw rx req st =
     (if truthy_str apiKey \<and> \<not> api_key_passes (the apiKey) req then (unauthorized, st)
      else (case route req of
              McpRoute \<Rightarrow> mcp hw rx req st
            | HealthRoute \<Rightarrow> (HealthDocument, st)
            | NoRoute \<Rightarrow> (FrameworkDefault, st)))"

text \<open>Requests handled one after the other, each with the world's reaction to it.\<close>

fun serve ::
  "string option \<Rightarrow> http_world \<Rightarrow> (reaction \<times> request) list \<Rightarrow> http_state \<Rightarrow> response list \<times> http_state" where
  "serve apiKey hw [] st = ([], st)"
| "serve apiKey hw (x # xs) st =
     (case app apiKey hw (fst x) (snd x) st of
        (r, st1) \<Rightarrow> (case serve apiKey hw xs st1 of (rs, st2) \<Rightarrow> (r # rs, st2)))"

subsection \<open>The session table as the binding keeps it\<close>

text \<open>
  \<open>storeSession\<close> is only called from \<open>onsessioninitialized\<close>, with the transport that
  has just taken the identifier as its \<open>sessionId\<close>: every entry's transport carries the
  entry's key, and the keys of a map are distinct.
\<close>

definition wf_sessions :: "(string \<times> session) list \<Rightarrow> bool" where
  "wf_sessions al =
     (distinct (map fst al) \<and>
      list_all (\<lambda>kv. sessionId (s_transport (snd kv)) = Some (fst kv)) al)"

text \<open>The two calls that tear one session down, with their outcomes.\<close>

definition teardown_calls :: "http_world \<Rightarrow> string \<times> session \<Rightarrow> hcall list" where
  "teardown_calls hw kv =
     [TransportClose (tid (s_transport (snd kv)))
        (\<not> transport_close_throws hw (tid (s_transport (snd kv)))),
      ServerClose (s_server (snd kv)) (\<not> server_close_throws hw (s_server (snd kv)))]"

text \<open>Whether the API key middleware, if installed, lets a request through.\<close>

definition admitted :: "string option \<Rightarrow> request \<Rightarrow> bool" where
  "admitted apiKey req = (if truthy_str apiKey then api_key_passes (the apiKey) req else True)"

subsection \<open>Notions for the properties of a server instance\<close>


text \<open>
  A rejected \<open>browserPromise\<close> holds the error of \<open>puppeteer.launch\<close>, which is the
  library's and not one this file constructs.
\<close>

definition is_external :: "error \<Rightarrow> bool" where
  "is_external e = (case e of ExternalError m \<Rightarrow> True | _ \<Rightarrow> False)"

definition promise_ok :: "inst \<Rightarrow> bool" where
  "promise_ok s = (case browserPromise s of Some (Inl e) \<Rightarrow> is_external e | _ \<Rightarrow> True)"

text \<open>A computation only appends to the log of calls.\<close>

definition grows :: "'a io \<Rightarrow> bool" where
  "grows m = (\<forall>s. \<exists>rest. trace (snd (m s)) = trace s @ rest)"


definition keeps_promise :: "'a io \<Rightarrow> bool" where
  "keeps_promise m = (\<forall>s. promise_ok s \<longrightarrow> promise_ok (snd (m s)))"

section \<open>Example inputs\<close>

definition no_files :: env_files where
  "no_files = \<lparr>env_local = Missing, env_plain = Missing\<rparr>"

definition token_files :: env_files where
  "token_files =
     \<lparr>env_local = Content ''COURSERA_CAUTH=\"tok\"'', env_plain = Content ''COURSERA_CAUTH=other''\<rparr>"

definition bare_process :: process where
  "bare_process = \<lparr>envLoaded = False, env = Map.empty\<rparr>"

definition empty_cookies_process :: process where
  "empty_cookies_process = \<lparr>envLoaded = False, env = [''COURSERA_COOKIES'' \<mapsto> [] ]\<rparr>"

definition calm :: http_world where
  "calm = \<lparr>transport_close_throws = (\<lambda>n. False), transport_close_calls_onclose = (\<lambda>n. True),
           server_close_throws = (\<lambda>n. False), httpServer_closes = True\<rparr>"

definition stormy :: http_world where
  "stormy = \<lparr>transport_close_throws = (\<lambda>n. n = 1), transport_close_calls_onclose = (\<lambda>n. n \<noteq> 1),
             server_close_throws = (\<lambda>n. n = 0), httpServer_closes = True\<rparr>"

definition plain :: reaction where
  "plain = \<lparr>create_throws = False, connect_throws = False, generated = None, closes = False,
            handle_throws = False, headersSent = True\<rparr>"

definition session_a :: session where
  "session_a = \<lparr>s_transport = \<lparr>tid = 1, kind = StreamableHTTP, sessionId = Some ''a'', owner = 0\<rparr>,
                s_server = 0\<rparr>"

definition session_b :: session where
  "session_b = \<lparr>s_transport = \<lparr>tid = 3, kind = StreamableHTTP, sessionId = Some ''b'', owner = 2\<rparr>,
                s_server = 2\<rparr>"

definition session_sse :: session where
  "session_sse = \<lparr>s_transport = \<lparr>tid = 5, kind = OtherTransport, sessionId = Some ''c'', owner = 4\<rparr>,
                  s_server = 4\<rparr>"

definition two_sessions :: http_state where
  "two_sessions = \<lparr>sessions = [(''a'', session_a), (''b'', session_b)], hlog = [], fresh = 4\<rparr>"

definition three_sessions :: http_state where
  "three_sessions =
     \<lparr>sessions = [(''a'', session_a), (''b'', session_b), (''c'', session_sse)], hlog = [], fresh = 6\<rparr>"

definition request_for :: "string \<Rightarrow> request" where
  "request_for sid =
     \<lparr>route = McpRoute, req_method = ''POST'', authorization = Absent, x_api_key = Absent,
      mcp_session_id = Single sid, body = Message False\<rparr>"

definition health_request :: request where
  "health_request =
     \<lparr>route = HealthRoute, req_method = ''GET'', authorization = Absent, x_api_key = Absent,
      mcp_session_id = Absent, body = NoBody\<rparr>"

definition keyed_health_request :: request where
  "keyed_health_request = health_request\<lparr>authorization := Single ''Bearer secret''\<rparr>"

definition fresh_inst :: inst where
  "fresh_inst =
     \<lparr>cfg = \<lparr>cookies = ''CAUTH=tok'', cauth = Some ''tok''\<rparr>, browserPromise = None, trace = [],
      tick = 0\<rparr>"

definition json_head :: response_head where
  "json_head = \<lparr>ok = True, status = 200, content_type = Some ''application/json''\<rparr>"


definition long_page :: extracted where
  "long_page =
     \<lparr>ex_html = replicate 120 (CHR ''q''), ex_text = replicate 101 (CHR ''q''),
      ex_selector = ''main''\<rparr>"

text \<open>A world in which no call rejects.\<close>

definition fair_world :: world where
  "fair_world =
     \<lparr>rejects = (\<lambda>n. None), response_of = (\<lambda>n. json_head), text_of = (\<lambda>n. ''Quiz''),
      value_of = (\<lambda>n. JObj [(''elements'', JArr [JObj [(''slug'', JStr ''undefined'')]])]),
      extracted_of = (\<lambda>n. long_page), url_of = (\<lambda>n. ''https://www.coursera.org/learn/x'')\<rparr>"

text \<open>
  A world in which the fourth call of an instance rejects: with a fresh instance that is
  \<open>page.setUserAgent\<close> on the first page.
\<close>

definition crashing_world :: world where
  "crashing_world = fair_world\<lparr>rejects := (\<lambda>n. if n = 3 then Some ''Target closed'' else None)\<rparr>"



section \<open>Properties\<close>

subsection \<open>Environment files\<close>

lemma set_if_unset_keeps: "truthy_str (e k) \<Longrightarrow> set_if_unset kv e k = e k"
  by (auto simp: set_if_unset_def)

lemma load_lines_keeps: "truthy_str (e k) \<Longrightarrow> load_lines ls e k = e k"
  by (induction ls arbitrary: e) (auto simp: set_if_unset_keeps split: option.splits)

lemma load_file_keeps: "load_file f e = Inr e' \<Longrightarrow> truthy_str (e k) \<Longrightarrow> e' k = e k"
  by (cases f) (auto simp: load_lines_keeps)

lemma loadEnv_keeps: "truthy_str (env p k) \<Longrightarrow> env (snd (loadEnv fs p)) k = env p k"
  by (auto simp: loadEnv_def Let_def load_file_keeps split: sum.splits)

lemma loadEnv_keeps_first_file:
  "\<not> envLoaded p \<Longrightarrow> load_file (env_local fs) (env p) = Inr e1 \<Longrightarrow> truthy_str (e1 k)
     \<Longrightarrow> env (snd (loadEnv fs p)) k = e1 k"
  by (auto simp: loadEnv_def Let_def load_file_keeps split: sum.splits)

lemma loadEnv_sets_flag: "envLoaded (snd (loadEnv fs p))"
  by (auto simp: loadEnv_def Let_def split: sum.splits)

lemma loadEnv_loaded: "envLoaded p \<Longrightarrow> loadEnv fs p = (Inr (), p)"
  by (simp add: loadEnv_def)

lemma indexOf_append: "c \<notin> set k \<Longrightarrow> indexOf (k @ c # r) c = Some (length k)"
  by (induction k) auto

lemma unquote_pair: "q = CHR 0x22 \<or> q = CHR 0x27 \<Longrightarrow> unquote (q # mid @ [q]) = mid"
  by (auto simp: unquote_def startsWith_def endsWith_def)

lemma parse_line_quoted:
  assumes "trim line = k @ CHR 0x3D # r" "CHR 0x3D \<notin> set k" "\<not> startsWith (trim line) [CHR 0x23]"
    and "trim r = q # mid @ [q]" "q = CHR 0x22 \<or> q = CHR 0x27"
  shows "parse_line line = Some (trim k, mid)"
  using assms by (simp add: parse_line_def Let_def indexOf_append unquote_pair)

text \<open>
  Claim C8, as amended. A call of \<open>loadEnv\<close> after the first changes nothing, whatever
  the files have become. A non-empty value of a key is never overridden: not the one the
  process environment had before, not the one \<open>.env.local\<close> has set when \<open>.env\<close> is read,
  and not the one an earlier line has set. A line \<open>key=value\<close> whose value, trimmed, is
  \<open>mid\<close> between two double quotes or between two single quotes gives the key the value
  \<open>mid\<close>: one pair of quotes is stripped, and \<open>mid\<close> is kept as it is.
\<close>

theorem loadEnv_once_keeps_nonempty_strips_quotes:
  "loadEnv fs' (snd (loadEnv fs p)) = (Inr (), snd (loadEnv fs p)) \<and>
   (truthy_str (env p k) \<longrightarrow> env (snd (loadEnv fs p)) k = env p k) \<and>
   (\<not> envLoaded p \<and> load_file (env_local fs) (env p) = Inr e1 \<and> truthy_str (e1 k)
      \<longrightarrow> env (snd (loadEnv fs p)) k = e1 k) \<and>
   (truthy_str (e k) \<longrightarrow> load_lines ls e k = e k) \<and>
   (trim line = key @ CHR 0x3D # r \<and> CHR 0x3D \<notin> set key \<and> \<not> startsWith (trim line) [CHR 0x23] \<and>
    trim r = q # mid @ [q] \<and> (q = CHR 0x22 \<or> q = CHR 0x27)
      \<longrightarrow> parse_line line = Some (trim key, mid))"
  using loadEnv_loaded [OF loadEnv_sets_flag] loadEnv_keeps loadEnv_keeps_first_file
    load_lines_keeps parse_line_quoted
  by blast

theorem loadEnv_once_keeps_nonempty_strips_quotes_witness:
  "loadEnv no_files (snd (loadEnv token_files bare_process)) = (Inr (), snd (loadEnv token_files bare_process)) \<and>
   env (snd (loadEnv token_files bare_process)) ''COURSERA_CAUTH'' = Some ''tok'' \<and>
   parse_line ''COURSERA_CAUTH=\"tok\"'' = Some (''COURSERA_CAUTH'', ''tok'')"
proof -
  have e1: "load_file (env_local token_files) (env bare_process) = Inr [''COURSERA_CAUTH'' \<mapsto> ''tok'']"
    by (simp add: token_files_def bare_process_def parse_line_def trim_def is_space_def
        startsWith_def endsWith_def unquote_def set_if_unset_def Let_def)
  have nl: "\<not> envLoaded bare_process" by (simp add: bare_process_def)
  have t1: "trim ''COURSERA_CAUTH=\"tok\"'' = ''COURSERA_CAUTH'' @ CHR 0x3D # ''\"tok\"''"
    by (simp add: trim_def is_space_def)
  have t2: "trim ''\"tok\"'' = CHR 0x22 # ''tok'' @ [CHR 0x22]" "trim ''COURSERA_CAUTH'' = ''COURSERA_CAUTH''"
    by (simp_all add: trim_def is_space_def)
  have t3: "\<not> startsWith (trim ''COURSERA_CAUTH=\"tok\"'') [CHR 0x23]"
    by (simp add: trim_def is_space_def startsWith_def)
  show ?thesis
    using loadEnv_once_keeps_nonempty_strips_quotes
      [where fs' = no_files and fs = token_files and p = bare_process
          and ?e1.0 = "[''COURSERA_CAUTH'' \<mapsto> ''tok'']" and k = "''COURSERA_CAUTH''"
          and e = "[''COURSERA_CAUTH'' \<mapsto> ''tok'']" and ls = "[]"
          and line = "''COURSERA_CAUTH=\"tok\"''" and key = "''COURSERA_CAUTH''"
          and r = "''\"tok\"''" and q = "CHR 0x22" and mid = "''tok''"]
      e1 nl t1 t2 t3
    by simp
qed

text \<open>
  Claim C8 as it is written fails for a value that is the empty string. The process
  environment has \<open>COURSERA_COOKIES\<close> set to the empty string, and \<open>.env.local\<close>
  overrides it; \<open>.env.local\<close> sets \<open>K\<close> to the empty string, and \<open>.env\<close> overrides it.
\<close>

theorem loadEnv_overrides_empty_value:
  "env empty_cookies_process ''COURSERA_COOKIES'' = Some '''' \<and>
   env (snd (loadEnv \<lparr>env_local = Content ''COURSERA_COOKIES=new'', env_plain = Missing\<rparr>
          empty_cookies_process)) ''COURSERA_COOKIES'' = Some ''new'' \<and>
   load_file (Content ''K='') (env bare_process) = Inr [''K'' \<mapsto> ''''] \<and>
   env (snd (loadEnv \<lparr>env_local = Content ''K='', env_plain = Content ''K=later''\<rparr> bare_process)) ''K''
     = Some ''later''"
  by (simp add: empty_cookies_process_def bare_process_def loadEnv_def parse_line_def trim_def
      is_space_def startsWith_def endsWith_def unquote_def set_if_unset_def Let_def)


subsection \<open>Credentials and start-up\<close>

text \<open>
  Claim C7, as amended. Let \<open>loadEnv\<close> complete and leave the environment of \<open>p1\<close>. If
  neither \<open>COURSERA_COOKIES\<close> nor \<open>COURSERA_CAUTH\<close> has a non-empty value there,
  \<open>getCourseraConfig\<close> throws the missing-credential error, and both bindings exit with
  code 1 without ever serving. If \<open>COURSERA_COOKIES\<close> is non-empty, it is the cookie string
  returned; if only \<open>COURSERA_CAUTH\<close> is non-empty, the cookie string is \<open>CAUTH=\<close> followed
  by the token.
\<close>

theorem getCourseraConfig_fails_fast:
  assumes "loadEnv fs p = (Inr (), p1)"
  shows "(\<not> truthy_str (env p1 ''COURSERA_COOKIES'') \<and> \<not> truthy_str (env p1 ''COURSERA_CAUTH'') \<longrightarrow>
            getCourseraConfig fs p = (Inl (Error missing_message), p1) \<and>
            fst (http_startup fs listen_error p) = Exited 1 \<and>
            fst (stdio_main fs connect_error p) = Exited 1) \<and>
         (truthy_str (env p1 ''COURSERA_COOKIES'') \<longrightarrow>
            (\<exists>c. getCourseraConfig fs p = (Inr c, p1) \<and>
                 Some (cookies c) = env p1 ''COURSERA_COOKIES'')) \<and>
         (\<not> truthy_str (env p1 ''COURSERA_COOKIES'') \<and> truthy_str (env p1 ''COURSERA_CAUTH'') \<longrightarrow>
            (\<exists>c t. getCourseraConfig fs p = (Inr c, p1) \<and> env p1 ''COURSERA_CAUTH'' = Some t \<and>
                   cookies c = ''CAUTH='' @ t))"
proof (intro conjI impI)
  assume a: "\<not> truthy_str (env p1 ''COURSERA_COOKIES'') \<and> \<not> truthy_str (env p1 ''COURSERA_CAUTH'')"
  with assms show "getCourseraConfig fs p = (Inl (Error missing_message), p1)"
    by (simp add: getCourseraConfig_def Let_def)
  then show "fst (http_startup fs listen_error p) = Exited 1"
    and "fst (stdio_main fs connect_error p) = Exited 1"
    by (simp_all add: http_startup_def stdio_main_def)
next
  assume a: "truthy_str (env p1 ''COURSERA_COOKIES'')"
  then obtain v where "env p1 ''COURSERA_COOKIES'' = Some v" "v \<noteq> []"
    by (cases "env p1 ''COURSERA_COOKIES''") auto
  with assms show "\<exists>c. getCourseraConfig fs p = (Inr c, p1) \<and> Some (cookies c) = env p1 ''COURSERA_COOKIES''"
    by (simp add: getCourseraConfig_def Let_def)
next
  assume a: "\<not> truthy_str (env p1 ''COURSERA_COOKIES'') \<and> truthy_str (env p1 ''COURSERA_CAUTH'')"
  then obtain t where "env p1 ''COURSERA_CAUTH'' = Some t" "t \<noteq> []"
    by (cases "env p1 ''COURSERA_CAUTH''") auto
  with assms a show "\<exists>c t. getCourseraConfig fs p = (Inr c, p1) \<and> env p1 ''COURSERA_CAUTH'' = Some t \<and>
                   cookies c = ''CAUTH='' @ t"
    by (simp add: getCourseraConfig_def Let_def)
qed

lemma loadEnv_token_files:
  "loadEnv token_files bare_process = (Inr (), \<lparr>envLoaded = True, env = [''COURSERA_CAUTH'' \<mapsto> ''tok'']\<rparr>)"
  by (simp add: token_files_def bare_process_def loadEnv_def parse_line_def trim_def is_space_def
        startsWith_def endsWith_def unquote_def set_if_unset_def Let_def)

theorem getCourseraConfig_fails_fast_witness:
  "fst (getCourseraConfig token_files bare_process) = Inr \<lparr>cookies = ''CAUTH=tok'', cauth = Some ''tok''\<rparr> \<and>
   fst (getCourseraConfig no_files bare_process) = Inl (Error missing_message) \<and>
   fst (http_startup no_files False bare_process) = Exited 1 \<and>
   fst (stdio_main no_files False bare_process) = Exited 1"
proof -
  have l2: "loadEnv no_files bare_process = (Inr (), \<lparr>envLoaded = True, env = Map.empty\<rparr>)"
    by (simp add: no_files_def bare_process_def loadEnv_def)
  have "fst (getCourseraConfig token_files bare_process) = Inr \<lparr>cookies = ''CAUTH=tok'', cauth = Some ''tok''\<rparr>"
    using getCourseraConfig_fails_fast [OF loadEnv_token_files, of False False]
    by (auto simp: getCourseraConfig_def loadEnv_token_files Let_def)
  moreover have "fst (getCourseraConfig no_files bare_process) = Inl (Error missing_message) \<and>
   fst (http_startup no_files False bare_process) = Exited 1 \<and>
   fst (stdio_main no_files False bare_process) = Exited 1"
    using getCourseraConfig_fails_fast [OF l2, of False False] by simp
  ultimately show ?thesis by simp
qed

text \<open>
  Claim C7 as it is written fails when a credential variable is present with the empty
  string as its value: \<open>COURSERA_COOKIES\<close> is in the environment, before and after the
  call, and \<open>getCourseraConfig\<close> throws.
\<close>

theorem getCourseraConfig_rejects_empty_credential:
  "env empty_cookies_process ''COURSERA_COOKIES'' = Some '''' \<and>
   fst (getCourseraConfig no_files empty_cookies_process) = Inl (Error missing_message) \<and>
   env (snd (getCourseraConfig no_files empty_cookies_process)) ''COURSERA_COOKIES'' = Some '''' \<and>
   fst (http_startup no_files False empty_cookies_process) = Exited 1"
  by (simp add: empty_cookies_process_def no_files_def getCourseraConfig_def loadEnv_def
      http_startup_def)


subsection \<open>Requests the protocol endpoint rejects\<close>

lemma mcp_unknown_session:
  "session_header req = Some sid \<Longrightarrow> map_of (sessions st) sid = None
     \<Longrightarrow> mcp hw rx req st = (no_valid_session, st)"
  by (simp add: mcp_def getStreamableTransport_def)

lemma mcp_not_initialize:
  "session_header req = None \<Longrightarrow> \<not> (req_method req = ''POST'' \<and> hasInitializeRequest (body req))
     \<Longrightarrow> mcp hw rx req st = (no_valid_session, st)"
  by (auto simp: mcp_def getStreamableTransport_def)

lemma mcp_different_transport:
  "session_header req = Some sid \<Longrightarrow> map_of (sessions st) sid = Some session
     \<Longrightarrow> kind (s_transport session) \<noteq> StreamableHTTP
     \<Longrightarrow> mcp hw rx req st = (different_transport, st)"
  by (simp add: mcp_def getStreamableTransport_def)

lemma app_mcp:
  "route req = McpRoute \<Longrightarrow>
     app apiKey hw rx req st = (if admitted apiKey req then mcp hw rx req st else (unauthorized, st))"
  by (simp add: app_def admitted_def)

text \<open>
  Claim C2. A request to the protocol endpoint is given that names a session identifier
  the table does not have, or names none and is not a \<open>POST\<close> with an initialization
  message, or names a session whose transport is not a \<open>StreamableHTTPServerTransport\<close>.
  Then the state after the request is the state before it (so no session is created,
  removed or replaced), and the response is a JSON-RPC error: 401 when the API key
  middleware stops the request first, else 400 with the message of the case.
\<close>

theorem rejected_request_changes_nothing:
  assumes "route req = McpRoute"
    and "(session_header req = Some sid \<and> map_of (sessions st) sid = None) \<or>
         (session_header req = None \<and>
            \<not> (req_method req = ''POST'' \<and> hasInitializeRequest (body req))) \<or>
         (session_header req = Some sid \<and> map_of (sessions st) sid = Some session \<and>
            kind (s_transport session) \<noteq> StreamableHTTP)"
  shows "snd (app apiKey hw rx req st) = st \<and>
         fst (app apiKey hw rx req st) =
           (if \<not> admitted apiKey req then JsonRpcError 401 (- 32000) ''Unauthorized''
            else if session_header req \<noteq> None \<and> map_of (sessions st) sid \<noteq> None
            then JsonRpcError 400 (- 32000)
                   ''Bad Request: Session exists but uses a different transport protocol''
            else JsonRpcError 400 (- 32000) ''Bad Request: No valid session ID provided'')"
  using assms(2)
  by (auto simp: app_mcp [OF assms(1)] mcp_unknown_session mcp_not_initialize
      mcp_different_transport unauthorized_def no_valid_session_def different_transport_def
      respondJsonRpcError_def)

theorem rejected_request_changes_nothing_witness:
  "app None stormy plain (request_for ''gone'') three_sessions =
     (JsonRpcError 400 (- 32000) ''Bad Request: No valid session ID provided'', three_sessions) \<and>
   app None stormy plain (request_for ''c'') three_sessions =
     (JsonRpcError 400 (- 32000)
        ''Bad Request: Session exists but uses a different transport protocol'', three_sessions) \<and>
   app None stormy plain ((request_for ''x'')\<lparr>mcp_session_id := Absent\<rparr>) three_sessions =
     (JsonRpcError 400 (- 32000) ''Bad Request: No valid session ID provided'', three_sessions)"
proof -
  have r: "route (request_for s) = McpRoute" "session_header (request_for s) = (if s = [] then None else Some s)"
    "admitted None r'" for s r'
    by (simp_all add: request_for_def session_header_def admitted_def)
  have m: "map_of (sessions three_sessions) ''gone'' = None"
    "map_of (sessions three_sessions) ''c'' = Some session_sse"
    "kind (s_transport session_sse) \<noteq> StreamableHTTP"
    by (simp_all add: three_sessions_def session_sse_def)
  have n: "route ((request_for ''x'')\<lparr>mcp_session_id := Absent\<rparr>) = McpRoute"
    "session_header ((request_for ''x'')\<lparr>mcp_session_id := Absent\<rparr>) = None"
    "\<not> hasInitializeRequest (body ((request_for ''x'')\<lparr>mcp_session_id := Absent\<rparr>))"
    by (simp_all add: request_for_def session_header_def hasInitializeRequest_def)
  show ?thesis
    using rejected_request_changes_nothing [of "request_for ''gone''" "''gone''" three_sessions session_sse None stormy plain]
      rejected_request_changes_nothing [of "request_for ''c''" "''c''" three_sessions session_sse None stormy plain]
      rejected_request_changes_nothing [of "(request_for ''x'')\<lparr>mcp_session_id := Absent\<rparr>" "''x''" three_sessions session_sse None stormy plain]
      r m n
    by (simp add: prod_eq_iff)
qed


subsection \<open>The API key\<close>

text \<open>
  Claim C3, as amended. Without a configured API key, the health route answers with the
  fixed status document. With a configured key, a request whose extracted key is absent
  or differs from it gets the 401 response with the JSON-RPC error body on every route,
  the health route and the protocol endpoint alike, and the state is unchanged, so no
  session is created; with the matching key, the health route answers with the fixed
  status document.
\<close>

theorem api_key_guards_every_route:
  "(\<not> truthy_str apiKey \<and> route req = HealthRoute \<longrightarrow>
      app apiKey hw rx req st = (HealthDocument, st)) \<and>
   (truthy_str apiKey \<and> apiKey = Some k \<and> extractApiKey req \<noteq> Some k \<longrightarrow>
      app apiKey hw rx req st = (JsonRpcError 401 (- 32000) ''Unauthorized'', st)) \<and>
   (truthy_str apiKey \<and> apiKey = Some k \<and> extractApiKey req = Some k \<and> route req = HealthRoute \<longrightarrow>
      app apiKey hw rx req st = (HealthDocument, st))"
  by (auto simp: app_def api_key_passes_def unauthorized_def respondJsonRpcError_def
      split: option.splits)

theorem api_key_guards_every_route_witness:
  "app None calm plain health_request two_sessions = (HealthDocument, two_sessions) \<and>
   app (Some ''secret'') calm plain (request_for ''a'') two_sessions =
     (JsonRpcError 401 (- 32000) ''Unauthorized'', two_sessions) \<and>
   app (Some ''secret'') calm plain keyed_health_request two_sessions = (HealthDocument, two_sessions)"
proof -
  have e: "extractApiKey (request_for ''a'') = None" "extractApiKey keyed_health_request = Some ''secret''"
    by (simp_all add: request_for_def keyed_health_request_def health_request_def extractApiKey_def
        bearer_match_def ci_bearer_def is_space_def is_line_terminator_def trim_def Let_def)
  have r: "route health_request = HealthRoute" "route keyed_health_request = HealthRoute"
    by (simp_all add: keyed_health_request_def health_request_def)
  show ?thesis
    using api_key_guards_every_route [of None health_request calm plain two_sessions "''secret''"]
      api_key_guards_every_route [of "Some ''secret''" "request_for ''a''" calm plain two_sessions "''secret''"]
      api_key_guards_every_route [of "Some ''secret''" keyed_health_request calm plain two_sessions "''secret''"]
      e r
    by simp
qed

text \<open>
  Claim C3 as it is written fails: with an API key configured, a request to the health
  route that carries no key is answered with 401, not with the status document.
\<close>

theorem health_check_requires_api_key:
  "route health_request = HealthRoute \<and>
   app (Some ''secret'') calm plain health_request two_sessions =
     (JsonRpcError 401 (- 32000) ''Unauthorized'', two_sessions)"
  by (simp add: app_def health_request_def api_key_passes_def extractApiKey_def unauthorized_def
      respondJsonRpcError_def)

subsection \<open>Teardown of a session\<close>

lemma map_of_None_delete: "map_of al k = None \<Longrightarrow> AList.delete k al = al"
  by (induction al) (auto simp: AList.delete_eq)

lemma cleanupSession_absent: "map_of (sessions st) sid = None \<Longrightarrow> cleanupSession hw sid st = st"
  by (simp add: cleanupSession_def map_of_None_delete)

lemma shutdownSession_absent: "map_of (sessions st) sid = None \<Longrightarrow> shutdownSession hw sid st = st"
  by (simp add: shutdownSession_def cleanupSession_absent)

lemma cleanupSession_removes: "map_of (sessions (cleanupSession hw sid st)) sid = None"
  by (simp add: cleanupSession_def delete_conv' split: option.splits)

lemma shutdownSession_removes: "map_of (sessions (shutdownSession hw sid st)) sid = None"
  by (simp add: shutdownSession_def cleanupSession_removes)

lemma cleanupSession_keeps_absent:
  "map_of (sessions st) sid = None \<Longrightarrow> map_of (sessions (cleanupSession hw k st)) sid = None"
  by (simp add: cleanupSession_def delete_conv' split: option.splits)

lemma transport_onclose_keeps_absent:
  "map_of (sessions st) sid = None \<Longrightarrow> map_of (sessions (transport_onclose hw t st)) sid = None"
  by (simp add: transport_onclose_def cleanupSession_keeps_absent split: option.splits)

lemma storeSession_keeps_absent:
  "map_of (sessions st) sid = None \<Longrightarrow> k \<noteq> sid \<Longrightarrow> map_of (sessions (storeSession k t srv st)) sid = None"
  by (simp add: storeSession_def update_conv')

lemma handleRequest_keeps_absent:
  "map_of (sessions st) sid = None \<Longrightarrow> generated rx \<noteq> Some sid
     \<Longrightarrow> map_of (sessions (snd (handleRequest hw rx t st))) sid = None"
  by (auto simp: handleRequest_def Let_def intro!: transport_onclose_keeps_absent storeSession_keeps_absent
      split: option.splits)

lemma getStreamableTransport_sessions:
  "sessions (snd (getStreamableTransport rx req st)) = sessions st"
  by (auto simp: getStreamableTransport_def Let_def split: option.splits)

lemma mcp_keeps_absent:
  assumes "map_of (sessions st) sid = None" "generated rx \<noteq> Some sid"
  shows "map_of (sessions (snd (mcp hw rx req st))) sid = None"
proof -
  obtain r st1 where g: "getStreamableTransport rx req st = (r, st1)" by (cases "getStreamableTransport rx req st")
  then have s1: "map_of (sessions st1) sid = None"
    using getStreamableTransport_sessions [of rx req st] assms(1) by simp
  show ?thesis
  proof (cases r)
    case (Inl e)
    with g s1 show ?thesis by (simp add: mcp_def)
  next
    case (Inr x)
    show ?thesis
    proof (cases x)
      case (Inl resp)
      with Inr g s1 show ?thesis by (simp add: mcp_def)
    next
      case (Inr t)
      obtain r2 st2 where h: "handleRequest hw rx t st1 = (r2, st2)"
        by (cases "handleRequest hw rx t st1")
      with handleRequest_keeps_absent [OF s1 assms(2), of hw t]
      have "map_of (sessions st2) sid = None" by simp
      with Inr \<open>r = Inr x\<close> g h show ?thesis by (simp add: mcp_def split: sum.splits)
    qed
  qed
qed

lemma app_keeps_absent:
  "map_of (sessions st) sid = None \<Longrightarrow> generated rx \<noteq> Some sid
     \<Longrightarrow> map_of (sessions (snd (app apiKey hw rx req st))) sid = None"
  by (auto simp: app_def mcp_keeps_absent split: route.splits)

lemma app_unknown_session:
  "map_of (sessions st) sid = None \<Longrightarrow> session_header req = Some sid \<Longrightarrow> route req = McpRoute
     \<Longrightarrow> admitted apiKey req \<Longrightarrow> fst (app apiKey hw rx req st) = no_valid_session"
  by (auto simp: app_def admitted_def mcp_def getStreamableTransport_def split: if_splits)

lemma serve_unknown_session:
  assumes "map_of (sessions st) sid = None" "list_all (\<lambda>x. generated (fst x) \<noteq> Some sid) evs"
  shows "map_of (sessions (snd (serve apiKey hw evs st))) sid = None \<and>
         (\<forall>i<length evs. session_header (snd (evs ! i)) = Some sid \<and> route (snd (evs ! i)) = McpRoute \<and>
              admitted apiKey (snd (evs ! i)) \<longrightarrow>
            fst (serve apiKey hw evs st) ! i = no_valid_session)"
  using assms
proof (induction evs arbitrary: st)
  case Nil
  then show ?case by simp
next
  case (Cons x xs)
  obtain r st1 where a: "app apiKey hw (fst x) (snd x) st = (r, st1)"
    by (cases "app apiKey hw (fst x) (snd x) st")
  obtain rs st2 where s: "serve apiKey hw xs st1 = (rs, st2)" by (cases "serve apiKey hw xs st1")
  from Cons.prems have g: "generated (fst x) \<noteq> Some sid" and gs: "list_all (\<lambda>x. generated (fst x) \<noteq> Some sid) xs"
    by simp_all
  have st1: "map_of (sessions st1) sid = None"
    using app_keeps_absent [OF Cons.prems(1) g, of apiKey hw "snd x"] a by simp
  note ih = Cons.IH [OF st1 gs]
  have hd: "session_header (snd x) = Some sid \<and> route (snd x) = McpRoute \<and> admitted apiKey (snd x)
              \<longrightarrow> r = no_valid_session"
    using app_unknown_session [OF Cons.prems(1), of "snd x" apiKey hw "fst x"] a by auto
  show ?case
  proof (intro conjI allI impI)
    show "map_of (sessions (snd (serve apiKey hw (x # xs) st))) sid = None"
      using ih a s by simp
  next
    fix i
    assume i: "i < length (x # xs)"
      and p: "session_header (snd ((x # xs) ! i)) = Some sid \<and> route (snd ((x # xs) ! i)) = McpRoute \<and>
              admitted apiKey (snd ((x # xs) ! i))"
    show "fst (serve apiKey hw (x # xs) st) ! i = no_valid_session"
    proof (cases i)
      case 0
      with hd p a s show ?thesis by simp
    next
      case (Suc j)
      with i p ih a s show ?thesis by auto
    qed
  qed
qed

text \<open>
  Claim C4. Let \<open>st1\<close> be the state after \<open>shutdownSession\<close> or \<open>cleanupSession\<close> of
  the identifier \<open>sid\<close>. Then \<open>sid\<close> is not in the table; tearing it down again, either
  way and whatever the world does, returns \<open>st1\<close> itself, so nothing is called and no
  entry is touched; and in every run of later requests in which no transport is handed
  \<open>sid\<close> as its fresh identifier, \<open>sid\<close> stays out of the table and every request that
  names \<open>sid\<close> and reaches the protocol endpoint is answered with the 400 error
  \<open>No valid session ID provided\<close>.
\<close>

theorem torn_down_session_is_unknown:
  assumes "st1 = shutdownSession hw sid st \<or> st1 = cleanupSession hw sid st"
    and "list_all (\<lambda>x. generated (fst x) \<noteq> Some sid) evs"
  shows "map_of (sessions st1) sid = None \<and>
         shutdownSession hw' sid st1 = st1 \<and> cleanupSession hw' sid st1 = st1 \<and>
         map_of (sessions (snd (serve apiKey hw' evs st1))) sid = None \<and>
         (\<forall>i<length evs. session_header (snd (evs ! i)) = Some sid \<and> route (snd (evs ! i)) = McpRoute \<and>
              admitted apiKey (snd (evs ! i)) \<longrightarrow>
            fst (serve apiKey hw' evs st1) ! i =
              JsonRpcError 400 (- 32000) ''Bad Request: No valid session ID provided'')"
proof -
  have a: "map_of (sessions st1) sid = None"
    using assms(1) shutdownSession_removes cleanupSession_removes by auto
  show ?thesis
    using a shutdownSession_absent [OF a] cleanupSession_absent [OF a]
      serve_unknown_session [OF a assms(2), of apiKey hw']
    by (simp add: no_valid_session_def respondJsonRpcError_def)
qed

theorem torn_down_session_is_unknown_witness:
  "map_of (sessions (shutdownSession stormy ''a'' two_sessions)) ''a'' = None \<and>
   shutdownSession calm ''a'' (shutdownSession stormy ''a'' two_sessions) =
     shutdownSession stormy ''a'' two_sessions \<and>
   cleanupSession calm ''a'' (shutdownSession stormy ''a'' two_sessions) =
     shutdownSession stormy ''a'' two_sessions \<and>
   fst (serve None calm [(plain, request_for ''a'')] (shutdownSession stormy ''a'' two_sessions)) ! 0 =
     JsonRpcError 400 (- 32000) ''Bad Request: No valid session ID provided''"
proof -
  have g: "list_all (\<lambda>x. generated (fst x) \<noteq> Some ''a'') [(plain, request_for ''a'')]"
    by (simp add: plain_def)
  have r: "session_header (request_for ''a'') = Some ''a''" "route (request_for ''a'') = McpRoute"
    "admitted None (request_for ''a'')"
    by (simp_all add: request_for_def session_header_def admitted_def)
  show ?thesis
    using torn_down_session_is_unknown
      [of "shutdownSession stormy ''a'' two_sessions" stormy "''a''" two_sessions
          "[(plain, request_for ''a'')]" calm None] g r
    by simp
qed


subsection \<open>Shutdown\<close>

lemma cleanupSession_keys:
  "fst ` set (sessions (cleanupSession hw k st)) = fst ` set (sessions st) - {k}"
  by (auto simp: cleanupSession_def AList.delete_eq split: option.splits)

lemma transport_onclose_keys:
  "fst ` set (sessions (transport_onclose hw t st)) \<subseteq> fst ` set (sessions st)"
  by (auto simp: transport_onclose_def cleanupSession_keys split: option.splits)

lemma transport_close_keys:
  "fst ` set (sessions (transport_close hw t st)) \<subseteq> fst ` set (sessions st)"
proof -
  have "fst ` set (sessions (transport_onclose hw t (st\<lparr>hlog := l\<rparr>))) \<subseteq> fst ` set (sessions st)" for l
    using transport_onclose_keys [of hw t "st\<lparr>hlog := l\<rparr>"] by simp
  then show ?thesis by (simp add: transport_close_def Let_def)
qed

lemma shutdownSession_keys:
  "fst ` set (sessions (shutdownSession hw k st)) \<subseteq> fst ` set (sessions st) - {k}"
  using transport_close_keys [of hw _ st]
  by (auto simp: shutdownSession_def cleanupSession_keys split: option.splits)

lemma shutdown_all_keys:
  "fst ` set (sessions (foldl (\<lambda>s k. shutdownSession hw k s) st ks)) \<subseteq> fst ` set (sessions st) - set ks"
proof (induction ks arbitrary: st)
  case Nil
  then show ?case by simp
next
  case (Cons k ks)
  have "fst ` set (sessions (foldl (\<lambda>s k. shutdownSession hw k s) (shutdownSession hw k st) ks))
          \<subseteq> fst ` set (sessions (shutdownSession hw k st)) - set ks"
    by (rule Cons.IH)
  also have "\<dots> \<subseteq> (fst ` set (sessions st) - {k}) - set ks"
    using shutdownSession_keys [of hw k st] by blast
  finally show ?case by auto
qed

lemma sigint_empties: "sessions (snd (sigint hw st)) = []"
proof -
  have "fst ` set (sessions (snd (sigint hw st))) \<subseteq> fst ` set (sessions st) - set (map fst (sessions st))"
    using shutdown_all_keys [of hw st "map fst (sessions st)"] by (simp add: sigint_def Let_def)
  then have "set (sessions (snd (sigint hw st))) = {}" by auto
  then show ?thesis by simp
qed

lemma shutdownSession_wf:
  assumes "map_of (sessions st) k = Some s" "sessionId (s_transport s) = Some k"
  shows "shutdownSession hw k st =
           st\<lparr>sessions := AList.delete k (sessions st), hlog := hlog st @ teardown_calls hw (k, s)\<rparr>"
  using assms
  by (auto simp: shutdownSession_def transport_close_def transport_onclose_def cleanupSession_def
      teardown_calls_def Let_def delete_conv' delete_idem)

lemma shutdown_all_wf:
  assumes "wf_sessions al" "sessions st = al"
  shows "foldl (\<lambda>s k. shutdownSession hw k s) st (map fst al) =
           st\<lparr>sessions := [], hlog := hlog st @ concat (map (teardown_calls hw) al)\<rparr>"
  using assms
proof (induction al arbitrary: st)
  case Nil
  then show ?case by simp
next
  case (Cons kv al)
  obtain k s where kv: "kv = (k, s)" by (cases kv)
  from Cons.prems kv have d: "k \<notin> fst ` set al" and sid: "sessionId (s_transport s) = Some k"
    and wf: "wf_sessions al"
    by (auto simp: wf_sessions_def)
  have m: "map_of (sessions st) k = Some s" using Cons.prems(2) kv by simp
  have del: "AList.delete k (sessions st) = al"
    using Cons.prems(2) kv d by (simp add: AList.delete_eq filter_id_conv) (auto simp: image_iff)
  let ?st1 = "st\<lparr>sessions := al, hlog := hlog st @ teardown_calls hw (k, s)\<rparr>"
  have step: "shutdownSession hw k st = ?st1"
    using shutdownSession_wf [OF m sid, of hw] del by simp
  have "foldl (\<lambda>s k. shutdownSession hw k s) ?st1 (map fst al) =
          ?st1\<lparr>sessions := [], hlog := hlog ?st1 @ concat (map (teardown_calls hw) al)\<rparr>"
    by (rule Cons.IH [OF wf]) simp
  then show ?case using step kv by simp
qed

text \<open>
  The table is as the binding keeps it from the start on, and stays so under every
  request and every teardown.
\<close>

lemma wf_sessions_empty: "wf_sessions []"
  by (simp add: wf_sessions_def)

lemma list_all_update:
  "list_all P al \<Longrightarrow> P (k, v) \<Longrightarrow> list_all P (AList.update k v al)"
  by (induction al) auto

lemma wf_sessions_update:
  "wf_sessions al \<Longrightarrow> sessionId t = Some sid
     \<Longrightarrow> wf_sessions (AList.update sid \<lparr>s_transport = t, s_server = srv\<rparr> al)"
  by (simp add: wf_sessions_def distinct_update list_all_update)

lemma wf_sessions_delete: "wf_sessions al \<Longrightarrow> wf_sessions (AList.delete k al)"
  using distinct_delete [of al k] by (auto simp: wf_sessions_def AList.delete_eq list_all_iff)

lemma wf_cleanupSession:
  "wf_sessions (sessions st) \<Longrightarrow> wf_sessions (sessions (cleanupSession hw k st))"
  by (simp add: cleanupSession_def wf_sessions_delete split: option.splits)

lemma wf_transport_onclose:
  "wf_sessions (sessions st) \<Longrightarrow> wf_sessions (sessions (transport_onclose hw t st))"
  by (simp add: transport_onclose_def wf_cleanupSession split: option.splits)

lemma wf_transport_close:
  "wf_sessions (sessions st) \<Longrightarrow> wf_sessions (sessions (transport_close hw t st))"
  using wf_transport_onclose [of "st\<lparr>hlog := l\<rparr>" hw t for l]
  by (simp add: transport_close_def Let_def)

lemma wf_shutdownSession:
  "wf_sessions (sessions st) \<Longrightarrow> wf_sessions (sessions (shutdownSession hw k st))"
  by (simp add: shutdownSession_def wf_cleanupSession wf_transport_close split: option.splits)

lemma wf_handleRequest:
  assumes "wf_sessions (sessions st)"
  shows "wf_sessions (sessions (snd (handleRequest hw rx t st)))"
proof -
  have a: "wf_sessions (sessions (storeSession sid (t\<lparr>sessionId := Some sid\<rparr>) srv (st\<lparr>hlog := l\<rparr>)))"
    for sid srv l
    using assms by (simp add: storeSession_def wf_sessions_update)
  have b: "wf_sessions (sessions (st\<lparr>hlog := l\<rparr>))" for l using assms by simp
  show ?thesis
    using assms
    by (auto simp: handleRequest_def Let_def a b intro!: wf_transport_onclose split: option.splits)
qed

lemma wf_mcp:
  assumes "wf_sessions (sessions st)"
  shows "wf_sessions (sessions (snd (mcp hw rx req st)))"
proof -
  obtain r st1 where g: "getStreamableTransport rx req st = (r, st1)"
    by (cases "getStreamableTransport rx req st")
  have "sessions st1 = sessions st"
    using g by (auto simp: getStreamableTransport_def Let_def split: option.splits if_splits)
  with assms have w1: "wf_sessions (sessions st1)" by simp
  show ?thesis
  proof (cases r)
    case (Inl e)
    with g w1 show ?thesis by (simp add: mcp_def)
  next
    case (Inr x)
    show ?thesis
    proof (cases x)
      case (Inl resp)
      with Inr g w1 show ?thesis by (simp add: mcp_def)
    next
      case (Inr t)
      obtain r2 st2 where h: "handleRequest hw rx t st1 = (r2, st2)"
        by (cases "handleRequest hw rx t st1")
      with wf_handleRequest [OF w1, of hw rx t] have "wf_sessions (sessions st2)" by simp
      with Inr \<open>r = Inr x\<close> g h show ?thesis by (simp add: mcp_def split: sum.splits)
    qed
  qed
qed

lemma wf_app:
  "wf_sessions (sessions st) \<Longrightarrow> wf_sessions (sessions (snd (app apiKey hw rx req st)))"
  by (auto simp: app_def wf_mcp split: route.splits)

lemma wf_serve:
  "wf_sessions (sessions st) \<Longrightarrow> wf_sessions (sessions (snd (serve apiKey hw evs st)))"
proof (induction evs arbitrary: st)
  case Nil
  then show ?case by simp
next
  case (Cons x xs)
  obtain r st1 where a: "app apiKey hw (fst x) (snd x) st = (r, st1)"
    by (cases "app apiKey hw (fst x) (snd x) st")
  with wf_app [OF Cons.prems, of apiKey hw "fst x" "snd x"] have "wf_sessions (sessions st1)" by simp
  from Cons.IH [OF this] a show ?case
    by (cases "serve apiKey hw xs st1") simp
qed

text \<open>
  Claim C5. After the handler of \<open>SIGINT\<close> the table is empty, whatever throws. When
  the table is as the binding keeps it, the calls made are exactly, for each session in
  turn, the \<open>close\<close> of its transport and the \<open>close\<close> of its server, each with its own
  outcome: a call that throws for one session is followed by the calls for the next.
  The only exit is \<open>process.exit(0)\<close>, in the callback of the listening server's
  \<open>close\<close>.
\<close>

theorem sigint_tears_every_session_down:
  "sessions (snd (sigint hw st)) = [] \<and>
   fst (sigint hw st) = (if httpServer_closes hw then Some 0 else None) \<and>
   (wf_sessions (sessions st) \<longrightarrow>
      hlog (snd (sigint hw st)) = hlog st @ concat (map (teardown_calls hw) (sessions st)))"
  using sigint_empties [of hw st] shutdown_all_wf [of "sessions st" st hw]
  by (simp add: sigint_def Let_def)

theorem sigint_tears_every_session_down_witness:
  "sigint stormy two_sessions =
     (Some 0,
      \<lparr>sessions = [],
       hlog = [TransportClose 1 False, ServerClose 0 False, TransportClose 3 True, ServerClose 2 True],
       fresh = 4\<rparr>)"
proof -
  have wf: "wf_sessions (sessions two_sessions)"
    by (simp add: wf_sessions_def two_sessions_def session_a_def session_b_def)
  have f: "fresh (snd (sigint hw st)) = fresh st" for hw st
  proof -
    have c: "fresh (cleanupSession hw k s) = fresh s" for k s
      by (simp add: cleanupSession_def split: option.splits)
    have t: "fresh (transport_close hw t s) = fresh s" for t s
      by (simp add: transport_close_def transport_onclose_def Let_def c split: option.splits)
    have sh: "fresh (shutdownSession hw k s) = fresh s" for k s
      by (simp add: shutdownSession_def c t split: option.splits)
    have "fresh (foldl (\<lambda>s k. shutdownSession hw k s) s ks) = fresh s" for s ks
      by (induction ks arbitrary: s) (simp_all add: sh)
    then show ?thesis by (simp add: sigint_def Let_def)
  qed
  have "snd (sigint stormy two_sessions) =
      \<lparr>sessions = [],
       hlog = [TransportClose 1 False, ServerClose 0 False, TransportClose 3 True, ServerClose 2 True],
       fresh = 4\<rparr>"
    using sigint_tears_every_session_down [of stormy two_sessions] wf f [of stormy two_sessions]
    by (cases "snd (sigint stormy two_sessions)")
       (simp add: two_sessions_def teardown_calls_def stormy_def session_a_def session_b_def)
  moreover have "fst (sigint stormy two_sessions) = Some 0"
    by (simp add: sigint_def stormy_def Let_def)
  ultimately show ?thesis by (simp add: prod_eq_iff)
qed

subsection \<open>Computations of a server instance\<close>

lemmas io_defs = ret_def throw_def lift_def bindE_def try_catch_def try_finally_def ext_def

lemma growsI: "(\<And>s. \<exists>rest. trace (snd (m s)) = trace s @ rest) \<Longrightarrow> grows m"
  by (simp add: grows_def)

lemma growsD: "grows m \<Longrightarrow> \<exists>rest. trace (snd (m s)) = trace s @ rest"
  by (simp add: grows_def)

lemma grows_ret: "grows (ret x)" and grows_throw: "grows (throw e)" and grows_lift: "grows (lift r)"
  and grows_ext: "grows (ext w c)"
  by (simp_all add: grows_def io_defs)

lemma grows_bindE:
  assumes "grows m" "\<And>x. grows (f x)"
  shows "grows (bindE m f)"
proof (rule growsI)
  fix s
  obtain r s1 where m: "m s = (r, s1)" by (cases "m s")
  from growsD [OF assms(1), of s] m obtain r1 where t1: "trace s1 = trace s @ r1" by auto
  show "\<exists>rest. trace (snd (bindE m f s)) = trace s @ rest"
  proof (cases r)
    case (Inl e)
    with m t1 show ?thesis by (simp add: bindE_def)
  next
    case (Inr x)
    from growsD [OF assms(2), of x s1] obtain r2 where "trace (snd (f x s1)) = trace s1 @ r2" by auto
    with Inr m t1 show ?thesis by (simp add: bindE_def)
  qed
qed

lemma grows_try_catch:
  assumes "grows m" "\<And>e. grows (h e)"
  shows "grows (try_catch m h)"
proof (rule growsI)
  fix s
  obtain r s1 where m: "m s = (r, s1)" by (cases "m s")
  from growsD [OF assms(1), of s] m obtain r1 where t1: "trace s1 = trace s @ r1" by auto
  show "\<exists>rest. trace (snd (try_catch m h s)) = trace s @ rest"
  proof (cases r)
    case (Inr x)
    with m t1 show ?thesis by (simp add: try_catch_def)
  next
    case (Inl e)
    from growsD [OF assms(2), of e s1] obtain r2 where "trace (snd (h e s1)) = trace s1 @ r2" by auto
    with Inl m t1 show ?thesis by (simp add: try_catch_def)
  qed
qed

lemma grows_try_finally:
  assumes "grows m" "grows f"
  shows "grows (try_finally m f)"
proof (rule growsI)
  fix s
  obtain r s1 where m: "m s = (r, s1)" by (cases "m s")
  from growsD [OF assms(1), of s] m obtain r1 where t1: "trace s1 = trace s @ r1" by auto
  obtain q s2 where f: "f s1 = (q, s2)" by (cases "f s1")
  from growsD [OF assms(2), of s1] f obtain r2 where "trace s2 = trace s1 @ r2" by auto
  with m f t1 show "\<exists>rest. trace (snd (try_finally m f s)) = trace s @ rest"
    by (cases q) (simp_all add: try_finally_def)
qed

lemma grows_if: "grows a \<Longrightarrow> grows b \<Longrightarrow> grows (if c then a else b)"
  by simp

lemma grows_getBrowser: "grows (getBrowser w)"
  by (auto simp: grows_def getBrowser_def ext_def split: option.splits)

lemma grows_set_cookie:
  "grows (\<lambda>s. if cookiesToSet (cfg s) \<noteq> [] then ext w (SetCookie page (cookiesToSet (cfg s))) s
              else ret 0 s)"
  by (simp add: grows_def io_defs)

lemmas grows_intros = grows_ret grows_throw grows_lift grows_ext grows_bindE grows_try_catch
  grows_try_finally grows_if grows_getBrowser grows_set_cookie

lemma grows_createAuthenticatedPage: "grows (createAuthenticatedPage w)"
  unfolding createAuthenticatedPage_def by (intro grows_intros)


lemma grows_courseraFetch: "grows (courseraFetch w url)"
  unfolding courseraFetch_def by (intro grows_intros)

text \<open>The first call of a computation that begins with an external call.\<close>

lemma first_call_ext:
  assumes "\<And>n. grows (k n)"
  shows "\<exists>ok rest. trace (snd (bindE (ext w c) k s)) = trace s @ (c, ok) # rest"
proof (cases "rejects w (tick s)")
  case (Some m)
  then show ?thesis
    by (intro exI [of _ False] exI [of _ "[]"]) (simp add: bindE_def ext_def)
next
  case None
  let ?s1 = "s\<lparr>trace := trace s @ [(c, True)], tick := Suc (tick s)\<rparr>"
  from growsD [OF assms, of "tick s" ?s1] obtain r where "trace (snd (k (tick s) ?s1)) = trace ?s1 @ r"
    by auto
  with None show ?thesis
    by (intro exI [of _ True] exI [of _ r]) (simp add: bindE_def ext_def)
qed

lemma first_call_bindE:
  assumes "\<exists>ok rest. trace (snd (m s)) = pre @ (c, ok) # rest" "\<And>x. grows (f x)"
  shows "\<exists>ok rest. trace (snd (bindE m f s)) = pre @ (c, ok) # rest"
proof -
  obtain r s1 where m: "m s = (r, s1)" by (cases "m s")
  from assms(1) m obtain ok r1 where t1: "trace s1 = pre @ (c, ok) # r1" by auto
  show ?thesis
  proof (cases r)
    case (Inl e)
    with m t1 show ?thesis by (simp add: bindE_def)
  next
    case (Inr x)
    from growsD [OF assms(2), of x s1] obtain r2 where "trace (snd (f x s1)) = trace s1 @ r2" by auto
    with Inr m t1 show ?thesis by (simp add: bindE_def)
  qed
qed


lemmas run_defs = io_defs getBrowser_def createAuthenticatedPage_def cookiesToSet_def
  fetch_body_def page_close_def fetchPageContent_def courseraFetch_def Let_def













text \<open>
  The browser promise of an instance is as \<open>getBrowser\<close> leaves it, from
  \<open>createCourseraServer\<close> on and under every tool call.
\<close>

lemma keeps_promiseI: "(\<And>s. promise_ok s \<Longrightarrow> promise_ok (snd (m s))) \<Longrightarrow> keeps_promise m"
  by (simp add: keeps_promise_def)

lemma keeps_promiseD: "keeps_promise m \<Longrightarrow> promise_ok s \<Longrightarrow> m s = (r, s1) \<Longrightarrow> promise_ok s1"
  by (auto simp: keeps_promise_def)

lemma keeps_ret: "keeps_promise (ret x)" and keeps_throw: "keeps_promise (throw e)"
  and keeps_lift: "keeps_promise (lift r)" and keeps_ext: "keeps_promise (ext w c)"
  by (simp_all add: keeps_promise_def io_defs promise_ok_def)

lemma keeps_bindE:
  assumes "keeps_promise m" "\<And>x. keeps_promise (f x)"
  shows "keeps_promise (bindE m f)"
proof (rule keeps_promiseI)
  fix s assume p: "promise_ok s"
  obtain r s1 where m: "m s = (r, s1)" by (cases "m s")
  note a = keeps_promiseD [OF assms(1) p m]
  show "promise_ok (snd (bindE m f s))"
  proof (cases r)
    case (Inl e)
    with m a show ?thesis by (simp add: bindE_def)
  next
    case (Inr x)
    obtain q s2 where f: "f x s1 = (q, s2)" by (cases "f x s1")
    from keeps_promiseD [OF assms(2) a f] Inr m f show ?thesis by (simp add: bindE_def)
  qed
qed

lemma keeps_try_catch:
  assumes "keeps_promise m" "\<And>e. keeps_promise (h e)"
  shows "keeps_promise (try_catch m h)"
proof (rule keeps_promiseI)
  fix s assume p: "promise_ok s"
  obtain r s1 where m: "m s = (r, s1)" by (cases "m s")
  note a = keeps_promiseD [OF assms(1) p m]
  show "promise_ok (snd (try_catch m h s))"
  proof (cases r)
    case (Inr x)
    with m a show ?thesis by (simp add: try_catch_def)
  next
    case (Inl e)
    obtain q s2 where h: "h e s1 = (q, s2)" by (cases "h e s1")
    from keeps_promiseD [OF assms(2) a h] Inl m h show ?thesis by (simp add: try_catch_def)
  qed
qed

lemma keeps_try_finally:
  assumes "keeps_promise m" "keeps_promise f"
  shows "keeps_promise (try_finally m f)"
proof (rule keeps_promiseI)
  fix s assume p: "promise_ok s"
  obtain r s1 where m: "m s = (r, s1)" by (cases "m s")
  note a = keeps_promiseD [OF assms(1) p m]
  obtain q s2 where f: "f s1 = (q, s2)" by (cases "f s1")
  from keeps_promiseD [OF assms(2) a f] m f show "promise_ok (snd (try_finally m f s))"
    by (cases q) (simp_all add: try_finally_def)
qed

lemma keeps_if: "keeps_promise a \<Longrightarrow> keeps_promise b \<Longrightarrow> keeps_promise (if c then a else b)"
  by simp

lemma keeps_getBrowser: "keeps_promise (getBrowser w)"
  by (auto simp: keeps_promise_def getBrowser_def ext_def promise_ok_def is_external_def
      split: option.splits sum.splits)

lemma keeps_set_cookie:
  "keeps_promise (\<lambda>s. if cookiesToSet (cfg s) \<noteq> [] then ext w (SetCookie page (cookiesToSet (cfg s))) s
              else ret 0 s)"
  by (simp add: keeps_promise_def io_defs promise_ok_def)

lemmas keeps_intros = keeps_ret keeps_throw keeps_lift keeps_ext keeps_bindE keeps_try_catch
  keeps_try_finally keeps_if keeps_getBrowser keeps_set_cookie

lemma keeps_createAuthenticatedPage: "keeps_promise (createAuthenticatedPage w)"
  unfolding createAuthenticatedPage_def by (intro keeps_intros)

lemma keeps_page_close: "keeps_promise (page_close w page)"
  unfolding page_close_def by (intro keeps_intros)

lemma keeps_fetchPageContent: "keeps_promise (fetchPageContent w url)"
  unfolding fetchPageContent_def fetch_body_def
  by (intro keeps_intros keeps_createAuthenticatedPage keeps_page_close)

lemma keeps_courseraFetch: "keeps_promise (courseraFetch w url)"
  unfolding courseraFetch_def by (intro keeps_intros)

lemma keeps_courseraFetch_or_null: "keeps_promise (courseraFetch_or_null w url)"
  unfolding courseraFetch_or_null_def by (intro keeps_intros keeps_courseraFetch)

lemmas keeps_more = keeps_intros keeps_createAuthenticatedPage keeps_page_close
  keeps_fetchPageContent keeps_courseraFetch keeps_courseraFetch_or_null

lemma keeps_getAssignment_loop: "keeps_promise (getAssignment_loop w cs ii urls)"
proof (induction urls)
  case Nil
  have "getAssignment_loop w cs ii [] = throw (could_not_find cs ii)" by (rule ext) simp
  then show ?case by (simp add: keeps_throw)
next
  case (Cons u us)
  show ?case
  proof (rule keeps_promiseI)
    fix s assume p: "promise_ok s"
    obtain q s1 where f: "fetchPageContent w (JStr u) s = (q, s1)"
      by (cases "fetchPageContent w (JStr u) s")
    note a = keeps_promiseD [OF keeps_fetchPageContent p f]
    obtain q2 s2 where l: "getAssignment_loop w cs ii us s1 = (q2, s2)"
      by (cases "getAssignment_loop w cs ii us s1")
    note b = keeps_promiseD [OF Cons.IH a l]
    show "promise_ok (snd (getAssignment_loop w cs ii (u # us) s))"
      using f a l b by (auto split: sum.splits)
  qed
qed

lemma keeps_handlers:
  "keeps_promise (listEnrollments w a)" "keeps_promise (getCourse w a)"
  "keeps_promise (listCourseMaterials w a)" "keeps_promise (getPageContent w a)"
  "keeps_promise (getReading w a)" "keeps_promise (getLecture w a)"
  "keeps_promise (listAssignments w a)" "keeps_promise (getAssignment w a)"
  "keeps_promise (getProgress w a)" "keeps_promise (listDegreePrograms w a)"
  unfolding listEnrollments_def getCourse_def listCourseMaterials_def getPageContent_def
    getReading_def getLecture_def listAssignments_def getAssignment_def getProgress_def
    listDegreePrograms_def Let_def
  by (intro keeps_more keeps_getAssignment_loop)+

lemma promise_ok_callTool:
  "promise_ok s \<Longrightarrow> promise_ok (snd (callTool w name arguments s))"
proof -
  have "keeps_promise (callTool w name arguments)"
    unfolding callTool_def Let_def toolHandlers_def
    by (auto intro!: keeps_more keeps_handlers)
  then show "promise_ok s \<Longrightarrow> promise_ok (snd (callTool w name arguments s))"
    by (simp add: keeps_promise_def)
qed

lemma promise_ok_createCourseraServer:
  "createCourseraServer fs p = (Inr s, p1) \<Longrightarrow> promise_ok s"
  by (auto simp: createCourseraServer_def promise_ok_def split: prod.splits sum.splits)

lemma promise_ok_onclose: "promise_ok s \<Longrightarrow> promise_ok (snd (onclose w s))"
  by (auto simp: onclose_def io_defs promise_ok_def split: option.splits sum.splits)

subsection \<open>Tool calls and schemas\<close>

lemma getCourse_first_call:
  "\<exists>ok rest. trace (snd (getCourse w a s)) =
      trace s @ (Fetch (course_url (arg ''course_slug'' a)), ok) # rest"
  unfolding getCourse_def Let_def courseraFetch_def
  by (intro first_call_bindE first_call_ext grows_intros)

text \<open>
  Claim C1, as amended. The handler of tool calls does not look at the schemas. A name
  that \<open>toolHandlers\<close> has neither of its own nor by inheritance gets the error
  \<open>Unknown tool\<close>, and nothing is called. A registered handler is run on the argument
  object as it came (on \<open>{}\<close> when there is none), whether the object satisfies the
  tool's schema or not. In particular \<open>get_course\<close> always issues its upstream request:
  the first call of the invocation is the fetch of the course URL built from whatever
  \<open>course_slug\<close> is.
\<close>

theorem callTool_runs_handlers_unvalidated:
  "(toolHandlers name = None \<and> \<not> List.member object_prototype name \<longrightarrow>
      callTool w name arguments s = (Inl (Error (''Unknown tool: '' @ name)), s)) \<and>
   (toolHandlers name = Some handler \<longrightarrow>
      callTool w name arguments s =
        bindE (handler w (case arguments of None \<Rightarrow> [] | Some a \<Rightarrow> a))
          (\<lambda>result. ret (formatToolResponse result)) s) \<and>
   (\<exists>ok rest. trace (snd (callTool w ''get_course'' (Some a) s)) =
      trace s @ (Fetch (course_url (arg ''course_slug'' a)), ok) # rest)"
proof (intro conjI impI)
  assume "toolHandlers name = None \<and> \<not> List.member object_prototype name"
  then show "callTool w name arguments s = (Inl (Error (''Unknown tool: '' @ name)), s)"
    by (simp add: callTool_def throw_def)
next
  assume "toolHandlers name = Some handler"
  then show "callTool w name arguments s =
        bindE (handler w (case arguments of None \<Rightarrow> [] | Some a \<Rightarrow> a))
          (\<lambda>result. ret (formatToolResponse result)) s"
    by (simp add: callTool_def)
next
  have "callTool w ''get_course'' (Some a) = bindE (getCourse w a) (\<lambda>result. ret (formatToolResponse result))"
    by (simp add: callTool_def toolHandlers_def)
  then show "\<exists>ok rest. trace (snd (callTool w ''get_course'' (Some a) s)) =
      trace s @ (Fetch (course_url (arg ''course_slug'' a)), ok) # rest"
    using first_call_bindE [where m = "getCourse w a" and s = s and pre = "trace s"
        and f = "\<lambda>result. ret (formatToolResponse result)", OF getCourse_first_call]
    by (simp add: grows_ret)
qed

theorem callTool_runs_handlers_unvalidated_witness:
  "callTool fair_world ''does_not_exist'' (Some []) fresh_inst =
     (Inl (Error ''Unknown tool: does_not_exist''), fresh_inst) \<and>
   callTool fair_world ''get_page_content'' None fresh_inst =
     (Inl (TypeError ''Cannot read properties of undefined (reading includes)''), fresh_inst)"
proof -
  have a: "toolHandlers ''does_not_exist'' = None" "\<not> List.member object_prototype ''does_not_exist''"
    "toolHandlers ''get_page_content'' = Some getPageContent"
    by (simp_all add: toolHandlers_def object_prototype_def)
  have b: "getPageContent fair_world [] fresh_inst =
      (Inl (TypeError ''Cannot read properties of undefined (reading includes)''), fresh_inst)"
    by (simp add: getPageContent_def arg_def url_includes_def io_defs)
  show ?thesis
    using callTool_runs_handlers_unvalidated [where name = "''does_not_exist''" and w = fair_world
          and arguments = "Some []" and s = fresh_inst and handler = getPageContent and a = "[]"]
      callTool_runs_handlers_unvalidated [where name = "''get_page_content''" and w = fair_world
          and arguments = None and s = fresh_inst and handler = getPageContent and a = "[]"]
      a b
    by (simp add: io_defs)
qed

text \<open>
  Claim C1 as it is written fails: \<open>get_course\<close> with the argument object \<open>{}\<close>, which
  lacks the required \<open>course_slug\<close>, is not answered with a validation error. The
  handler fetches the course whose slug is \<open>undefined\<close> and returns what the API
  returned.
\<close>

theorem get_course_without_slug_calls_upstream:
  "find_tool ''get_course'' =
     Some \<lparr>tool_name = ''get_course'', properties = [(''course_slug'', TString)],
           required = [''course_slug'']\<rparr> \<and>
   \<not> schema_valid \<lparr>tool_name = ''get_course'', properties = [(''course_slug'', TString)],
                    required = [''course_slug'']\<rparr> [] \<and>
   fst (callTool fair_world ''get_course'' (Some []) fresh_inst) =
     Inr (TextContent (JObj [(''slug'', JStr ''undefined'')])) \<and>
   trace (snd (callTool fair_world ''get_course'' (Some []) fresh_inst)) =
     [(Fetch (''https://www.coursera.org/api/onDemandCourses.v1?q=slug&slug=undefined'' @
              ''&fields=id,name,slug,description,primaryLanguages,instructorIds,partnerIds,workload,photoUrl''),
       True),
      (ReadJson, True)]"
  by (simp add: find_tool_def tools_def schema_valid_def callTool_def toolHandlers_def getCourse_def
      course_url_def COURSERA_API_BASE_def encodeURIComponent_def encode_unit_def unreserved_def
      arg_def run_defs fair_world_def fresh_inst_def json_head_def startsWith_def opt_prop_def
      formatToolResponse_def)

subsection \<open>The candidates of get_assignment\<close>






subsection \<open>The URL check of get_page_content\<close>





subsection \<open>Pages and the browser\<close>

text \<open>
  The part of the browser discipline that the code keeps: \<open>getBrowser\<close> launches only while
  \<open>browserPromise\<close> is \<open>null\<close> and leaves it set, and a \<open>try\<close> with
  \<open>finally { await page.close() }\<close> ends with that call on every path, so once
  \<open>createAuthenticatedPage\<close> has returned the page is closed.
\<close>

lemma getBrowser_launches_once:
  "browserPromise (snd (getBrowser w s)) \<noteq> None"
  "browserPromise s = Some r \<Longrightarrow> getBrowser w s = (r, s)"
  by (simp_all add: getBrowser_def ext_def split: option.splits)

lemma page_closed_after_try:
  "trace (snd (try_finally m (page_close w page) s)) =
     trace (snd (m s)) @ [(PageClose page, rejects w (tick (snd (m s))) = None)]"
  by (cases "m s") (simp add: try_finally_def page_close_def io_defs split: option.splits)

lemma fetchPageContent_closes_page:
  assumes "createAuthenticatedPage w s = (Inr page, s1)"
  shows "\<exists>ok. last (trace (snd (fetchPageContent w url s))) = (PageClose page, ok)"
proof -
  have "fetchPageContent w url s = try_finally (fetch_body w page url) (page_close w page) s1"
    using assms by (simp add: fetchPageContent_def bindE_def)
  then show ?thesis by (simp add: page_closed_after_try)
qed

text \<open>
  Claim C6 fails where the set-up of a page throws. Here \<open>page.setUserAgent\<close> rejects
  on the first page of a fresh instance: \<open>newPage\<close> had succeeded, the error leaves
  \<open>createAuthenticatedPage\<close> before the \<open>try\<close> of \<open>fetchPageContent\<close> is entered, and the
  invocation ends without a \<open>page.close()\<close>.
\<close>

theorem page_left_open_when_setup_fails:
  "callTool crashing_world ''get_page_content''
     (Some [(''url'', JStr ''https://www.coursera.org/learn/x'')]) fresh_inst =
   (Inl (ExternalError ''Target closed''),
    fresh_inst\<lparr>browserPromise := Some (Inr ()),
               trace := [(Launch, True), (NewPage, True), (SetCookie 1 [(''CAUTH'', ''tok'')], True),
                         (SetUserAgent 1, False)],
               tick := 4\<rparr>)"
  by (simp add: callTool_def toolHandlers_def getPageContent_def url_includes_def arg_def
      startsWith_def run_defs crashing_world_def fair_world_def fresh_inst_def)

end
